theory Spec2Isabelle
  imports Complex_Main "HOL-Library.Sublist"
begin

section \<open>JavaScript values used by App.tsx\<close>

text \<open>
  Strings are \<^typ>\<open>string\<close>. Anything a \<^verbatim>\<open>try\<close> block of the source can catch is a
  \<open>js_error\<close>: an \<^verbatim>\<open>Error\<close> instance with its message (what \<^verbatim>\<open>fetch\<close>,
  \<^verbatim>\<open>response.json()\<close>, \<^verbatim>\<open>JSON.parse\<close>, \<^verbatim>\<open>localStorage\<close> and \<^verbatim>\<open>throw new Error(..)\<close>
  produce), or some other thrown value.
\<close>

datatype js_error = Error string | Thrown

text \<open>Truthiness of a \<^verbatim>\<open>string | null\<close>: \<^verbatim>\<open>null\<close> and the empty string are falsy.\<close>

fun truthy :: "string option \<Rightarrow> bool" where
  "truthy None = False"
| "truthy (Some s) = (s \<noteq> [])"

section \<open>Storage adapter (App.tsx, lines 162-177)\<close>

text \<open>
  The browser's \<^verbatim>\<open>localStorage\<close>: the stored pairs, whether access to the storage is
  denied (both \<^verbatim>\<open>getItem\<close> and \<^verbatim>\<open>setItem\<close> then throw), and the quota in characters
  (\<^verbatim>\<open>setItem\<close> throws when the new contents would exceed it). A throwing call stores
  nothing.
\<close>

record localStorage =
  items :: "(string \<times> string) list"
  disabled :: bool
  quota :: nat

definition usage :: "(string \<times> string) list \<Rightarrow> nat" where
  "usage kvs = sum_list (map (\<lambda>(k, v). length k + length v) kvs)"

fun put :: "string \<Rightarrow> string \<Rightarrow> (string \<times> string) list \<Rightarrow> (string \<times> string) list" where
  "put k v [] = [(k, v)]"
| "put k v ((k', v') # kvs) = (if k' = k then (k, v) # kvs else (k', v') # put k v kvs)"

definition getItem :: "localStorage \<Rightarrow> string \<Rightarrow> js_error + string option" where
  "getItem ls k =
     (if disabled ls then Inl (Error ''SecurityError'') else Inr (map_of (items ls) k))"

definition setItem :: "localStorage \<Rightarrow> string \<Rightarrow> string \<Rightarrow> js_error + localStorage" where
  "setItem ls k v =
     (if disabled ls then Inl (Error ''SecurityError'')
      else if quota ls < usage (put k v (items ls)) then Inl (Error ''QuotaExceededError'')
      else Inr (ls\<lparr>items := put k v (items ls)\<rparr>))"

text \<open>
  \<^verbatim>\<open>JSON.parse\<close> and \<^verbatim>\<open>JSON.stringify\<close> at the caller's type \<open>'a\<close> are parameters:
  \<open>parse\<close> gives \<open>Inl\<close> for text that is not JSON (a \<^verbatim>\<open>SyntaxError\<close>), \<open>stringify\<close>
  gives \<open>Inl\<close> for a value it throws on (a cyclic object, a BigInt).

  \<^verbatim>\<open>
  function getFromStorage<T>(key: string, defaultValue: T): T {
    try {
      const item = localStorage.getItem(key);
      return item ? JSON.parse(item) : defaultValue;
    } catch {
      return defaultValue;
    }
  }
  \<close>
  The body of the \<^verbatim>\<open>try\<close> is \<open>getFromStorage_try\<close>; the \<^verbatim>\<open>catch\<close> is the \<open>Inl\<close> case of
  \<open>getFromStorage\<close>.
\<close>

definition getFromStorage_try ::
  "(string \<Rightarrow> js_error + 'a) \<Rightarrow> localStorage \<Rightarrow> string \<Rightarrow> 'a \<Rightarrow> js_error + 'a" where
  "getFromStorage_try parse ls key defaultValue =
     (case getItem ls key of
        Inl e \<Rightarrow> Inl e
      | Inr None \<Rightarrow> Inr defaultValue
      | Inr (Some item) \<Rightarrow> (if truthy (Some item) then parse item else Inr defaultValue))"

definition getFromStorage ::
  "(string \<Rightarrow> js_error + 'a) \<Rightarrow> localStorage \<Rightarrow> string \<Rightarrow> 'a \<Rightarrow> 'a" where
  "getFromStorage parse ls key defaultValue =
     (case getFromStorage_try parse ls key defaultValue of
        Inr v \<Rightarrow> v
      | Inl e \<Rightarrow> defaultValue)"

text \<open>
  \<^verbatim>\<open>
  function setToStorage<T>(key: string, value: T): void {
    try {
      localStorage.setItem(key, JSON.stringify(value));
    } catch {
      // Storage full or unavailable
    }
  }
  \<close>
  The function returns the storage after the call.
\<close>

definition setToStorage_try ::
  "('a \<Rightarrow> js_error + string) \<Rightarrow> localStorage \<Rightarrow> string \<Rightarrow> 'a \<Rightarrow> js_error + localStorage" where
  "setToStorage_try stringify ls key val =
     (case stringify val of
        Inl e \<Rightarrow> Inl e
      | Inr text \<Rightarrow> setItem ls key text)"

definition setToStorage ::
  "('a \<Rightarrow> js_error + string) \<Rightarrow> localStorage \<Rightarrow> string \<Rightarrow> 'a \<Rightarrow> localStorage" where
  "setToStorage stringify ls key val =
     (case setToStorage_try stringify ls key val of
        Inr ls' \<Rightarrow> ls'
      | Inl e \<Rightarrow> ls)"

section \<open>Numbers and strings\<close>

text \<open>
  Numbers that the program only ever holds as integers (counters, rounded milliseconds,
  seconds, timestamps) are \<^typ>\<open>int\<close>; clock readings and the mean are \<^typ>\<open>rat\<close>.
  \<^verbatim>\<open>Math.round\<close> rounds to the nearest integer, a tie towards \<open>+\<infinity>\<close>; \<^verbatim>\<open>a % b\<close>
  takes the sign of the dividend.
\<close>

definition Math_round :: "rat \<Rightarrow> int" where
  "Math_round x = \<lfloor>x + 1 / 2\<rfloor>"

definition js_rem :: "int \<Rightarrow> int \<Rightarrow> int" where
  "js_rem a b = sgn a * (\<bar>a\<bar> mod \<bar>b\<bar>)"

definition digit_chars :: string where
  "digit_chars = ''0123456789''"

fun decimal_digits :: "nat \<Rightarrow> string" where
  "decimal_digits n =
     (if n < 10 then [digit_chars ! n] else decimal_digits (n div 10) @ [digit_chars ! (n mod 10)])"

declare decimal_digits.simps [simp del]

text \<open>A number in a template literal: its decimal digits, after a minus sign when negative.\<close>

definition number_toString :: "int \<Rightarrow> string" where
  "number_toString i =
     (if 0 \<le> i then decimal_digits (nat i) else CHR ''-'' # decimal_digits (nat (- i)))"

text \<open>\<^verbatim>\<open>Array.prototype.join\<close> on strings.\<close>

fun join :: "string \<Rightarrow> string list \<Rightarrow> string" where
  "join sep [] = []"
| "join sep [x] = x"
| "join sep (x # y # ys) = x @ sep @ join sep (y # ys)"


text \<open>
  \<^verbatim>\<open>parseInt(s)\<close> with no radix: leading white space, a sign, an optional \<^verbatim>\<open>0x\<close>, then
  the longest run of digits; \<open>None\<close> is \<^verbatim>\<open>NaN\<close>.
\<close>

definition isWhiteSpace :: "char \<Rightarrow> bool" where
  "isWhiteSpace c = (c \<in> set [CHR '' '', CHR 0x09, CHR 0x0A, CHR 0x0B, CHR 0x0C, CHR 0x0D])"

definition digit_value :: "char \<Rightarrow> nat option" where
  "digit_value c =
     map_of [(CHR ''0'', 0), (CHR ''1'', 1), (CHR ''2'', 2), (CHR ''3'', 3), (CHR ''4'', 4),
             (CHR ''5'', 5), (CHR ''6'', 6), (CHR ''7'', 7), (CHR ''8'', 8), (CHR ''9'', 9),
             (CHR ''a'', 10), (CHR ''b'', 11), (CHR ''c'', 12), (CHR ''d'', 13),
             (CHR ''e'', 14), (CHR ''f'', 15), (CHR ''A'', 10), (CHR ''B'', 11), (CHR ''C'', 12),
             (CHR ''D'', 13), (CHR ''E'', 14), (CHR ''F'', 15)] c"

definition is_digit :: "nat \<Rightarrow> char \<Rightarrow> bool" where
  "is_digit radix c = (case digit_value c of None \<Rightarrow> False | Some d \<Rightarrow> d < radix)"

definition digits_value :: "nat \<Rightarrow> string \<Rightarrow> nat" where
  "digits_value radix ds =
     foldl (\<lambda>acc c. acc * radix + (case digit_value c of None \<Rightarrow> 0 | Some d \<Rightarrow> d)) 0 ds"

definition parseInt :: "string \<Rightarrow> int option" where
  "parseInt s =
     (let s1 = dropWhile isWhiteSpace s;
          neg = (take 1 s1 = ''-'');
          s2 = (if take 1 s1 = ''-'' \<or> take 1 s1 = ''+'' then drop 1 s1 else s1);
          hex = (take 2 s2 = ''0x'' \<or> take 2 s2 = ''0X'');
          radix = (if hex then 16 else 10);
          ds = takeWhile (is_digit radix) (if hex then drop 2 s2 else s2)
      in if ds = [] then None
         else Some ((if neg then - 1 else 1) * int (digits_value radix ds)))"

section \<open>Runtime formatting (App.tsx, lines 141-148)\<close>

text \<open>
  \<^verbatim>\<open>
  function formatRuntime(seconds: number): string {
    const hours = Math.floor(seconds / 3600);
    const minutes = Math.floor((seconds % 3600) / 60);
    if (hours > 0) {
      return `${hours}h ${minutes}m`;
    }
    return `${minutes}m`;
  }
  \<close>
  On integers \<^verbatim>\<open>Math.floor(a / b)\<close> is \<open>a div b\<close>.
\<close>

definition formatRuntime :: "int \<Rightarrow> string" where
  "formatRuntime seconds =
     (let hours = seconds div 3600;
          minutes = js_rem seconds 3600 div 60
      in if hours > 0 then number_toString hours @ ''h '' @ number_toString minutes @ ''m''
         else number_toString minutes @ ''m'')"

section \<open>Entities and the Markdown export (App.tsx, lines 60-103 and 192-222)\<close>

text \<open>
  Of \<^verbatim>\<open>NetflixEntity\<close> the fields that the modelled functions read. Where the source
  guards a field with \<^verbatim>\<open>?.\<close> or \<^verbatim>\<open>||\<close>, the field is optional.
\<close>

record ContentAdvisory =
  certificationValue :: string
  boardName :: string
  reasons :: "string list option"

record NetflixEntity =
  typename :: string
  videoId :: int
  title :: string
  runtimeSec :: int
  latestYear :: int
  isAvailable :: bool
  availabilityStartTime :: string
  playbackBadges :: "string list option"
  contentAdvisory :: "ContentAdvisory option"
  textEvidence :: "string list option"

record NetflixData =
  unifiedEntities :: "NetflixEntity list option"

record NetflixResponse =
  data_r :: "NetflixData option"
  error_r :: "string option"

definition QUALITY_CAPABILITIES :: "(string \<times> string) list" where
  "QUALITY_CAPABILITIES =
     [(''VIDEO_ULTRA_HD'', ''Ultra 4K HD''), (''VIDEO_HD'', ''HD''), (''VIDEO_SD'', ''SD''),
      (''VIDEO_DOLBY_VISION'', ''Dolby Vision''), (''VIDEO_HDR10_PLUS'', ''HDR10+''),
      (''VIDEO_HDR'', ''HDR''), (''AUDIO_DOLBY_ATMOS'', ''Dolby Atmos''),
      (''AUDIO_SPATIAL'', ''Spatial Audio''), (''AUDIO_FIVE_DOT_ONE'', ''5.1 Dolby''),
      (''OFFLINE_DOWNLOAD_AVAILABLE'', ''Downloads'')]"

text \<open>\<^verbatim>\<open>a || b\<close> on strings: \<open>b\<close> when \<open>a\<close> is missing or empty.\<close>

definition or_else :: "string option \<Rightarrow> string \<Rightarrow> string" where
  "or_else a b = (case a of None \<Rightarrow> b | Some s \<Rightarrow> if s = [] then b else s)"

text \<open>
  \<^verbatim>\<open>exportAsMarkdown\<close>, line by line as the template literal has them. \<^verbatim>\<open>formatDate\<close>
  (the browser's \<^verbatim>\<open>toLocaleDateString\<close>) is the parameter \<open>formatDate\<close>.
\<close>

definition exportAsMarkdown :: "(string \<Rightarrow> string) \<Rightarrow> NetflixEntity \<Rightarrow> string" where
  "exportAsMarkdown formatDate entity =
     (let badges = (case playbackBadges entity of None \<Rightarrow> [] | Some b \<Rightarrow> b);
          qualities =
            or_else (Some (join '', ''
              (map snd (filter (\<lambda>cap. fst cap \<in> set badges) QUALITY_CAPABILITIES)))) ''None''
      in ''# '' @ title entity @ '' ('' @ number_toString (latestYear entity) @ '')'' @ [CHR 0x0A] @
         [CHR 0x0A] @
         ''## Overview'' @ [CHR 0x0A] @
         ''- **Video ID:** '' @ number_toString (videoId entity) @ [CHR 0x0A] @
         ''- **Type:** '' @ typename entity @ [CHR 0x0A] @
         ''- **Runtime:** '' @ formatRuntime (runtimeSec entity) @ [CHR 0x0A] @
         ''- **Available:** '' @ (if isAvailable entity then ''Yes'' else ''No'') @ [CHR 0x0A] @
         ''- **Release Date:** '' @ formatDate (availabilityStartTime entity) @ [CHR 0x0A] @
         [CHR 0x0A] @
         ''## Quality'' @ [CHR 0x0A] @
         qualities @ [CHR 0x0A] @
         [CHR 0x0A] @
         ''## Content Advisory'' @ [CHR 0x0A] @
         ''- **Rating:** '' @
           or_else (map_option certificationValue (contentAdvisory entity)) ''N/A'' @ [CHR 0x0A] @
         ''- **Board:** '' @
           or_else (map_option boardName (contentAdvisory entity)) ''N/A'' @ [CHR 0x0A] @
         or_else (map_option (\<lambda>rs. join [CHR 0x0A] (map (\<lambda>r. ''- '' @ r) rs))
                   (Option.bind (contentAdvisory entity) reasons)) [] @ [CHR 0x0A] @
         [CHR 0x0A] @
         ''## Tags'' @ [CHR 0x0A] @
         or_else (case textEvidence entity of None \<Rightarrow> None | Some [] \<Rightarrow> None
                  | Some (t # ts) \<Rightarrow> Some t) ''None'' @ [CHR 0x0A] @
         [CHR 0x0A] @
         ''---'' @ [CHR 0x0A] @
         ''*Exported from Netflix Metadata Explorer*'' @ [CHR 0x0A])"

section \<open>Search history (App.tsx, lines 105-109, 125, 292-313, 446-448)\<close>

record SearchHistoryItem =
  id_h :: string
  title_h :: string
  timestamp :: int

definition MAX_HISTORY :: nat where
  "MAX_HISTORY = 20"

definition HISTORY :: string where
  "HISTORY = ''nf-search-history''"

definition ANALYTICS :: string where
  "ANALYTICS = ''nf-analytics''"

text \<open>
  The updater that \<^verbatim>\<open>addToHistory\<close> hands to \<^verbatim>\<open>setHistory\<close>; \<open>now\<close> is the reading of
  \<^verbatim>\<open>Date.now()\<close>:
  \<^verbatim>\<open>
      const filtered = prev.filter(item => item.id !== id);
      const newItem: SearchHistoryItem = { id, title, timestamp: Date.now() };
      const updated = [newItem, ...filtered].slice(0, MAX_HISTORY);
  \<close>
\<close>

definition addToHistory_updated ::
  "int \<Rightarrow> string \<Rightarrow> string \<Rightarrow> SearchHistoryItem list \<Rightarrow> SearchHistoryItem list" where
  "addToHistory_updated now i t prev =
     (let filtered = filter (\<lambda>item. id_h item \<noteq> i) prev;
          newItem = \<lparr>id_h = i, title_h = t, timestamp = now\<rparr>
      in take MAX_HISTORY (newItem # filtered))"


section \<open>Analytics (App.tsx, lines 111-116, 315-344)\<close>

record RecentSearch =
  id_r :: string
  time_r :: int

record AnalyticsData =
  totalSearches :: int
  avgResponseTime :: int
  searchTimes :: "int list"
  recentSearches :: "RecentSearch list"

text \<open>\<^verbatim>\<open>xs.slice(-n)\<close>: the last \<open>n\<close> elements, all of them when there are fewer.\<close>

definition slice_last :: "nat \<Rightarrow> 'a list \<Rightarrow> 'a list" where
  "slice_last n xs = drop (length xs - n) xs"

text \<open>
  The updater that \<^verbatim>\<open>trackSearch\<close> hands to \<^verbatim>\<open>setAnalytics\<close>:
  \<^verbatim>\<open>
      const searchTimes = [...prev.searchTimes, responseTime].slice(-50);
      const avgResponseTime = searchTimes.reduce((a, b) => a + b, 0) / searchTimes.length;
      const recentSearches = [{ id, time: responseTime }, ...prev.recentSearches].slice(0, 10);
      const updated = {
        totalSearches: prev.totalSearches + 1,
        avgResponseTime: Math.round(avgResponseTime),
        searchTimes,
        recentSearches,
      };
  \<close>
  Both callers pass a \<^verbatim>\<open>Math.round\<close>ed time, so the samples are integers; the quotient
  is a rational. (The window is never empty at the division.)
\<close>

definition trackSearch_updated :: "string \<Rightarrow> int \<Rightarrow> AnalyticsData \<Rightarrow> AnalyticsData" where
  "trackSearch_updated i responseTime prev =
     (let times = slice_last 50 (searchTimes prev @ [responseTime]);
          avg = rat_of_int (foldl (+) 0 times) / rat_of_int (int (length times));
          recent = take 10 (\<lparr>id_r = i, time_r = responseTime\<rparr> # recentSearches prev)
      in \<lparr>totalSearches = totalSearches prev + 1,
          avgResponseTime = Math_round avg,
          searchTimes = times,
          recentSearches = recent\<rparr>)"

section \<open>URL state (App.tsx, lines 255-272)\<close>

text \<open>
  A URL is its part before the query, the list of query parameters as
  \<^verbatim>\<open>URLSearchParams\<close> keeps them, and the fragment. The browser's session history is the
  entry shown (\<open>href\<close>), the entries behind it, oldest first, and the entries ahead of it.
\<close>

record URL =
  origin_path :: string
  searchParams :: "(string \<times> string) list"
  hash :: string

record browser =
  href :: URL
  back_entries :: "URL list"
  forward_entries :: "URL list"

text \<open>
  \<^verbatim>\<open>URLSearchParams.get\<close> returns the first value of the name, \<^verbatim>\<open>set\<close> overwrites the first
  pair of the name and removes its other pairs (appending when there is none), \<^verbatim>\<open>delete\<close>
  removes every pair of the name.
\<close>

definition sp_get :: "string \<Rightarrow> (string \<times> string) list \<Rightarrow> string option" where
  "sp_get name ps = map_of ps name"

definition sp_delete :: "string \<Rightarrow> (string \<times> string) list \<Rightarrow> (string \<times> string) list" where
  "sp_delete name ps = filter (\<lambda>p. fst p \<noteq> name) ps"

fun sp_set :: "string \<Rightarrow> string \<Rightarrow> (string \<times> string) list \<Rightarrow> (string \<times> string) list" where
  "sp_set name v [] = [(name, v)]"
| "sp_set name v (p # ps) =
     (if fst p = name then (name, v) # sp_delete name ps else p # sp_set name v ps)"

text \<open>
  \<^verbatim>\<open>history.pushState\<close> adds an entry after the current one, dropping the entries ahead,
  and shows it; \<^verbatim>\<open>history.length\<close> is the number of entries.
\<close>

definition pushState :: "URL \<Rightarrow> browser \<Rightarrow> browser" where
  "pushState u w = \<lparr>href = u, back_entries = back_entries w @ [href w], forward_entries = []\<rparr>"

definition history_length :: "browser \<Rightarrow> nat" where
  "history_length w = length (back_entries w) + 1 + length (forward_entries w)"

text \<open>
  \<^verbatim>\<open>
  const getVideoIdFromURL = useCallback(() => {
    const params = new URLSearchParams(window.location.search);
    return params.get('v') || '';
  }, []);

  const setVideoIdToURL = useCallback((videoId: string) => {
    const url = new URL(window.location.href);
    if (videoId) {
      url.searchParams.set('v', videoId);
    } else {
      url.searchParams.delete('v');
    }
    window.history.pushState({}, '', url.toString());
  }, []);
  \<close>
\<close>

definition getVideoIdFromURL :: "browser \<Rightarrow> string" where
  "getVideoIdFromURL w = or_else (sp_get ''v'' (searchParams (href w))) []"

definition setVideoIdToURL :: "string \<Rightarrow> browser \<Rightarrow> browser" where
  "setVideoIdToURL vid w =
     (let url = href w;
          url' = (if vid \<noteq> [] then url\<lparr>searchParams := sp_set ''v'' vid (searchParams url)\<rparr>
                  else url\<lparr>searchParams := sp_delete ''v'' (searchParams url)\<rparr>)
      in pushState url' w)"

section \<open>The application state and its surroundings (App.tsx, lines 1029-1046)\<close>

record rate_limit =
  remaining :: "int option"
  limit :: "int option"

datatype toast = Success string | Failure string

text \<open>
  What \<^verbatim>\<open>response.json()\<close> resolves to: the JSON value \<^verbatim>\<open>null\<close>, on which reading any
  property throws a \<^verbatim>\<open>TypeError\<close>, or a value taken at the type \<^verbatim>\<open>NetflixResponse\<close> (a
  number, string, boolean or array has neither \<^verbatim>\<open>data\<close> nor \<^verbatim>\<open>error\<close>: both fields are
  then missing).
\<close>

datatype parsed_body = Null_body | Body NetflixResponse

text \<open>
  A response as the handlers read it: \<^verbatim>\<open>response.ok\<close>, \<^verbatim>\<open>response.headers.get\<close> and the
  outcome of \<^verbatim>\<open>response.json()\<close>, which throws on a body that is not JSON.
  \<^verbatim>\<open>fetch\<close> either rejects or resolves to a response.
\<close>

record response =
  ok :: bool
  headers :: "string \<Rightarrow> string option"
  json :: "js_error + parsed_body"

datatype fetch_result = Rejected js_error | Response response

text \<open>
  What a handler takes from outside: the network (\<open>fetch n url\<close> answers the request for
  \<open>url\<close> made after \<open>n\<close> earlier ones), the two readings of \<^verbatim>\<open>performance.now()\<close>, the
  reading of \<^verbatim>\<open>Date.now()\<close>, \<^verbatim>\<open>JSON.stringify\<close> at the two stored types, and the
  message the engine gives the \<^verbatim>\<open>TypeError\<close> for reading the named property of \<^verbatim>\<open>null\<close>.
\<close>

record env =
  fetch :: "nat \<Rightarrow> string \<Rightarrow> fetch_result"
  now_start :: rat
  now_end :: rat
  Date_now :: int
  stringify_history :: "SearchHistoryItem list \<Rightarrow> js_error + string"
  stringify_analytics :: "AnalyticsData \<Rightarrow> js_error + string"
  TypeError_message :: "string \<Rightarrow> string"

text \<open>
  The state of \<^verbatim>\<open>App\<close> that the search handlers touch, with the storage, the browser
  window, and two logs: the URLs requested so far and the toasts shown.
\<close>

record app =
  data :: "NetflixResponse option"
  comparisonData :: "NetflixEntity list"
  isLoading :: bool
  error :: "string option"
  rateLimit :: rate_limit
  history :: "SearchHistoryItem list"
  analytics :: AnalyticsData
  storage :: localStorage
  window :: browser
  requests :: "string list"
  toasts :: "toast list"

definition addToHistory :: "env \<Rightarrow> string \<Rightarrow> string \<Rightarrow> app \<Rightarrow> app" where
  "addToHistory E i t s =
     (let updated = addToHistory_updated (Date_now E) i t (history s)
      in s\<lparr>history := updated,
           storage := setToStorage (stringify_history E) (storage s) HISTORY updated\<rparr>)"

definition trackSearch :: "env \<Rightarrow> string \<Rightarrow> int \<Rightarrow> app \<Rightarrow> app" where
  "trackSearch E i responseTime s =
     (let updated = trackSearch_updated i responseTime (analytics s)
      in s\<lparr>analytics := updated,
           storage := setToStorage (stringify_analytics E) (storage s) ANALYTICS updated\<rparr>)"

definition api_url :: "string \<Rightarrow> string" where
  "api_url i = ''/api/metadata?videoId='' @ i"

text \<open>\<^verbatim>\<open>result.data?.unifiedEntities\<close>, empty when either part is missing.\<close>

definition entities_of :: "NetflixResponse \<Rightarrow> NetflixEntity list" where
  "entities_of result =
     (case data_r result of
        None \<Rightarrow> []
      | Some d \<Rightarrow> (case unifiedEntities d of None \<Rightarrow> [] | Some es \<Rightarrow> es))"

text \<open>\<^verbatim>\<open>err instanceof Error ? err.message : fallback\<close>\<close>

definition message_of :: "js_error \<Rightarrow> string \<Rightarrow> string" where
  "message_of err fallback = (case err of Error m \<Rightarrow> m | Thrown \<Rightarrow> fallback)"

section \<open>Single search (App.tsx, lines 1050-1094)\<close>

text \<open>
  The \<^verbatim>\<open>try\<close> block of \<^verbatim>\<open>handleSearch\<close>. It returns the state it reached and what was
  thrown, if anything. On a body \<^verbatim>\<open>null\<close> the first property read of \<^verbatim>\<open>result\<close> throws:
  \<^verbatim>\<open>result.error\<close> when the status is not successful, \<^verbatim>\<open>result.data\<close> otherwise.
  \<^verbatim>\<open>
      const response = await fetch(`/api/metadata?videoId=${videoId}`);
      const remaining = response.headers.get('X-RateLimit-Remaining');
      const limit = response.headers.get('X-RateLimit-Limit');
      if (remaining && limit) {
        setRateLimit({ remaining: parseInt(remaining), limit: parseInt(limit) });
      }
      const result = await response.json() as NetflixResponse;
      if (!response.ok) {
        throw new Error(result.error || 'Failed to fetch metadata');
      }
      if (!result.data?.unifiedEntities?.length) {
        throw new Error('No content found for this Video ID');
      }
      const entity = result.data.unifiedEntities[0];
      addToHistory(videoId, entity.title);
      const responseTime = Math.round(performance.now() - startTime);
      trackSearch(videoId, responseTime);
      setData(result);
      toast.success(`Found: ${entity.title}`);
  \<close>
\<close>

definition read_rate_headers :: "response \<Rightarrow> app \<Rightarrow> app" where
  "read_rate_headers resp s =
     (case (headers resp ''X-RateLimit-Remaining'', headers resp ''X-RateLimit-Limit'') of
        (Some r, Some l) \<Rightarrow>
          (if truthy (Some r) \<and> truthy (Some l)
           then s\<lparr>rateLimit := \<lparr>remaining = parseInt r, limit = parseInt l\<rparr>\<rparr>
           else s)
      | _ \<Rightarrow> s)"

definition handleSearch_try :: "env \<Rightarrow> string \<Rightarrow> app \<Rightarrow> app \<times> js_error option" where
  "handleSearch_try E vid s =
     (let s1 = s\<lparr>requests := requests s @ [api_url vid]\<rparr>
      in case fetch E (length (requests s)) (api_url vid) of
           Rejected e \<Rightarrow> (s1, Some e)
         | Response resp \<Rightarrow>
             (let s2 = read_rate_headers resp s1
              in case json resp of
                   Inl e \<Rightarrow> (s2, Some e)
                 | Inr Null_body \<Rightarrow>
                     (s2, Some (Error (TypeError_message E
                                         (if \<not> ok resp then ''error'' else ''data''))))
                 | Inr (Body result) \<Rightarrow>
                     (if \<not> ok resp
                      then (s2, Some (Error (or_else (error_r result) ''Failed to fetch metadata'')))
                      else (case entities_of result of
                              [] \<Rightarrow> (s2, Some (Error ''No content found for this Video ID''))
                            | entity # _ \<Rightarrow>
                                (let s3 = addToHistory E vid (title entity) s2;
                                     responseTime = Math_round (now_end E - now_start E);
                                     s4 = trackSearch E vid responseTime s3
                                 in (s4\<lparr>data := Some result,
                                        toasts := toasts s4 @ [Success (''Found: '' @ title entity)]\<rparr>,
                                     None))))))"

text \<open>The \<^verbatim>\<open>catch\<close> and \<^verbatim>\<open>finally\<close> blocks, shared in shape by both handlers.\<close>

definition catch_finally :: "string \<Rightarrow> app \<times> js_error option \<Rightarrow> app" where
  "catch_finally fallback r =
     (case r of
        (s, None) \<Rightarrow> s\<lparr>isLoading := False\<rparr>
      | (s, Some err) \<Rightarrow>
          s\<lparr>error := Some (message_of err fallback),
            toasts := toasts s @ [Failure (message_of err fallback)],
            isLoading := False\<rparr>)"

definition handleSearch :: "env \<Rightarrow> string \<Rightarrow> app \<Rightarrow> app" where
  "handleSearch E vid s =
     catch_finally ''An unexpected error occurred''
       (handleSearch_try E vid
          (s\<lparr>isLoading := True, error := None, data := None, comparisonData := [],
             window := setVideoIdToURL vid (window s)\<rparr>))"

section \<open>Batch search (App.tsx, lines 1096-1131)\<close>

text \<open>
  The loop of \<^verbatim>\<open>handleBatchSearch\<close> over the identifiers it is given, with the entities
  collected and the requests made so far; a rejected \<^verbatim>\<open>fetch\<close>, a throwing
  \<^verbatim>\<open>response.json()\<close> or a body \<^verbatim>\<open>null\<close> (at \<^verbatim>\<open>result.data\<close>) leaves the loop:
  \<^verbatim>\<open>
      for (const id of ids.slice(0, 4)) { // Limit to 4 for comparison
        const response = await fetch(`/api/metadata?videoId=${id}`);
        const result = await response.json() as NetflixResponse;
        if (result.data?.unifiedEntities?.[0]) {
          entities.push(result.data.unifiedEntities[0]);
        }
      }
  \<close>
\<close>

fun batch_loop ::
  "env \<Rightarrow> string list \<Rightarrow> NetflixEntity list \<Rightarrow> string list
     \<Rightarrow> NetflixEntity list \<times> string list \<times> js_error option" where
  "batch_loop E [] entities reqs = (entities, reqs, None)"
| "batch_loop E (i # ids) entities reqs =
     (case fetch E (length reqs) (api_url i) of
        Rejected e \<Rightarrow> (entities, reqs @ [api_url i], Some e)
      | Response resp \<Rightarrow>
          (case json resp of
             Inl e \<Rightarrow> (entities, reqs @ [api_url i], Some e)
           | Inr Null_body \<Rightarrow>
               (entities, reqs @ [api_url i], Some (Error (TypeError_message E ''data'')))
           | Inr (Body result) \<Rightarrow>
               batch_loop E ids
                 (case entities_of result of [] \<Rightarrow> entities | entity # _ \<Rightarrow> entities @ [entity])
                 (reqs @ [api_url i])))"

text \<open>
  The rest of the \<^verbatim>\<open>try\<close> block:
  \<^verbatim>\<open>
      if (entities.length === 0) {
        throw new Error('No content found for any of the provided IDs');
      }
      const responseTime = Math.round(performance.now() - startTime);
      trackSearch(ids.join(','), responseTime);
      setComparisonData(entities);
      toast.success(`Comparing ${entities.length} titles`);
  \<close>
\<close>

definition handleBatchSearch_try :: "env \<Rightarrow> string list \<Rightarrow> app \<Rightarrow> app \<times> js_error option" where
  "handleBatchSearch_try E ids s =
     (case batch_loop E (take 4 ids) [] (requests s) of
        (entities, reqs, Some e) \<Rightarrow> (s\<lparr>requests := reqs\<rparr>, Some e)
      | (entities, reqs, None) \<Rightarrow>
          (if length entities = 0
           then (s\<lparr>requests := reqs\<rparr>,
                 Some (Error ''No content found for any of the provided IDs''))
           else (let responseTime = Math_round (now_end E - now_start E);
                     s1 = trackSearch E (join '','' ids) responseTime (s\<lparr>requests := reqs\<rparr>)
                 in (s1\<lparr>comparisonData := entities,
                        toasts := toasts s1 @
                          [Success (''Comparing '' @ decimal_digits (length entities) @ '' titles'')]\<rparr>,
                     None))))"

definition handleBatchSearch :: "env \<Rightarrow> string list \<Rightarrow> app \<Rightarrow> app" where
  "handleBatchSearch E ids s =
     catch_finally ''Batch search failed''
       (handleBatchSearch_try E ids
          (s\<lparr>isLoading := True, error := None, data := None, comparisonData := []\<rparr>))"

section \<open>What a batch observes of the network\<close>

text \<open>
  What the loop of \<^verbatim>\<open>handleBatchSearch\<close> gets from its \<open>n\<close>-th request, for the
  identifier \<open>i\<close>: something thrown (\<^verbatim>\<open>fetch\<close> rejected, the body did not parse, or
  the body is \<^verbatim>\<open>null\<close>), no entity, or the first entity of the body. \<open>outcomes E n ids\<close> lists this for the
  identifiers \<open>ids\<close> requested one after the other from the \<open>n\<close>-th request on, and
  \<open>collected\<close> picks the entities out of such a list.
\<close>

definition request_outcome :: "env \<Rightarrow> nat \<Rightarrow> string \<Rightarrow> js_error + NetflixEntity option" where
  "request_outcome E n i =
     (case fetch E n (api_url i) of
        Rejected e \<Rightarrow> Inl e
      | Response resp \<Rightarrow>
          (case json resp of
             Inl e \<Rightarrow> Inl e
           | Inr Null_body \<Rightarrow> Inl (Error (TypeError_message E ''data''))
           | Inr (Body result) \<Rightarrow>
               Inr (case entities_of result of [] \<Rightarrow> None | entity # _ \<Rightarrow> Some entity)))"

fun outcomes :: "env \<Rightarrow> nat \<Rightarrow> string list \<Rightarrow> (js_error + NetflixEntity option) list" where
  "outcomes E n [] = []"
| "outcomes E n (i # ids) = request_outcome E n i # outcomes E (Suc n) ids"

fun collected :: "(js_error + NetflixEntity option) list \<Rightarrow> NetflixEntity list" where
  "collected [] = []"
| "collected (Inr (Some entity) # os) = entity # collected os"
| "collected (Inr None # os) = collected os"
| "collected (Inl e # os) = collected os"

text \<open>The same answer with another HTTP status (\<^verbatim>\<open>response.ok\<close>).\<close>

definition with_status :: "bool \<Rightarrow> fetch_result \<Rightarrow> fetch_result" where
  "with_status b r = (case r of Rejected e \<Rightarrow> Rejected e | Response resp \<Rightarrow> Response (resp\<lparr>ok := b\<rparr>))"

section \<open>Concrete inputs\<close>

text \<open>A history that is full: twenty entries with the identifiers \<open>a\<close> to \<open>t\<close>.\<close>

definition example_history :: "SearchHistoryItem list" where
  "example_history =
     map (\<lambda>c. \<lparr>id_h = [c], title_h = ''Title '' @ [c], timestamp = 1000\<rparr>) ''abcdefghijklmnopqrst''"

text \<open>
  The state \<^verbatim>\<open>App\<close> starts in when nothing is stored (the \<^verbatim>\<open>useState\<close> initial values),
  on a page with no query.
\<close>

definition initial_analytics :: AnalyticsData where
  "initial_analytics =
     \<lparr>totalSearches = 0, avgResponseTime = 0, searchTimes = [], recentSearches = []\<rparr>"

definition initial_app :: app where
  "initial_app =
     \<lparr>data = None, comparisonData = [], isLoading = False, error = None,
      rateLimit = \<lparr>remaining = Some 100, limit = Some 100\<rparr>,
      history = [], analytics = initial_analytics,
      storage = \<lparr>items = [], disabled = False, quota = 5000000\<rparr>,
      window = \<lparr>href = \<lparr>origin_path = ''https://nf.example/'', searchParams = [], hash = []\<rparr>,
                back_entries = [], forward_entries = []\<rparr>,
      requests = [], toasts = []\<rparr>"

text \<open>An entity with the given title and a mock endpoint that knows every identifier.\<close>

definition example_entity :: "string \<Rightarrow> NetflixEntity" where
  "example_entity t =
     \<lparr>typename = ''Movie'', videoId = 82156122, title = t, runtimeSec = 5400, latestYear = 2024,
      isAvailable = True, availabilityStartTime = ''2024-01-01T00:00:00Z'',
      playbackBadges = Some [''VIDEO_HD''], contentAdvisory = None, textEvidence = None\<rparr>"

definition found :: "string \<Rightarrow> fetch_result" where
  "found t =
     Response \<lparr>ok = True, headers = (\<lambda>name. None),
               json = Inr (Body \<lparr>data_r = Some \<lparr>unifiedEntities = Some [example_entity t]\<rparr>,
                                error_r = None\<rparr>)\<rparr>"

definition example_env :: env where
  "example_env =
     \<lparr>fetch = (\<lambda>n url. found (drop 22 url)), now_start = 10, now_end = 250, Date_now = 2000,
      stringify_history = (\<lambda>h. Inr (join '','' (map id_h h))),
      stringify_analytics = (\<lambda>a. Inr (number_toString (totalSearches a))),
      TypeError_message =
        (\<lambda>p. ''Cannot read properties of null (reading '' @ [CHR 0x27] @ p @ [CHR 0x27] @ '')'')\<rparr>"

text \<open>
  A stand-in for \<^verbatim>\<open>JSON.stringify\<close> and \<^verbatim>\<open>JSON.parse\<close> at the type of the theme
  preference: a string between double quotes.
\<close>

definition stringify_text :: "string \<Rightarrow> js_error + string" where
  "stringify_text s = Inr ([CHR 0x22] @ s @ [CHR 0x22])"

definition parse_text :: "string \<Rightarrow> js_error + string" where
  "parse_text t =
     (if 2 \<le> length t \<and> hd t = CHR 0x22 \<and> last t = CHR 0x22 then Inr (butlast (tl t))
      else Inl (Error ''SyntaxError''))"

definition example_storage :: localStorage where
  "example_storage =
     \<lparr>items = [(''nf-theme'', [CHR 0x22] @ ''light'' @ [CHR 0x22]), (''nf-broken'', ''{oops'')],
      disabled = False, quota = 40\<rparr>"






text \<open>
  A run of \<^verbatim>\<open>trackSearch\<close> calls, each with its identifier and its time, from the oldest
  to the newest; and 51 calls with the times 1 to 51.
\<close>

definition track_all :: "(string \<times> int) list \<Rightarrow> AnalyticsData \<Rightarrow> AnalyticsData" where
  "track_all calls a = foldl (\<lambda>prev c. trackSearch_updated (fst c) (snd c) prev) a calls"

definition example_calls :: "(string \<times> int) list" where
  "example_calls = map (\<lambda>n. (''81767635'', int n)) [1..<52]"

text \<open>
  Four more endpoints: one whose answer for the identifier \<open>A\<close> is not JSON, one whose
  answer for \<open>A\<close> is the JSON value \<^verbatim>\<open>null\<close>, one that knows no identifier (a 404 with an
  error body), and one whose responses carry the two rate-limit headers.
\<close>

definition null_env :: env where
  "null_env =
     example_env\<lparr>fetch := (\<lambda>n url.
        if url = api_url ''A''
        then Response \<lparr>ok = True, headers = (\<lambda>name. None), json = Inr Null_body\<rparr>
        else found (drop 22 url))\<rparr>"

definition flaky_env :: env where
  "flaky_env =
     example_env\<lparr>fetch := (\<lambda>n url.
        if url = api_url ''A''
        then Response \<lparr>ok = True, headers = (\<lambda>name. None),
                       json = Inl (Error ''Unexpected token < in JSON at position 0'')\<rparr>
        else found (drop 22 url))\<rparr>"

definition empty_env :: env where
  "empty_env =
     example_env\<lparr>fetch := (\<lambda>n url.
        Response \<lparr>ok = False, headers = (\<lambda>name. None),
                  json = Inr (Body \<lparr>data_r = None, error_r = Some ''Not found''\<rparr>)\<rparr>)\<rparr>"

definition rate_headers :: "string \<Rightarrow> string option" where
  "rate_headers name =
     (if name = ''X-RateLimit-Remaining'' then Some ''42''
      else if name = ''X-RateLimit-Limit'' then Some ''100''
      else None)"

definition rate_env :: env where
  "rate_env =
     example_env\<lparr>fetch := (\<lambda>n url.
        Response \<lparr>ok = True, headers = rate_headers,
                  json = Inr (Body \<lparr>data_r = Some \<lparr>unifiedEntities =
                                                     Some [example_entity (drop 22 url)]\<rparr>,
                                   error_r = None\<rparr>)\<rparr>)\<rparr>"

section \<open>Properties of the search history\<close>

lemma filter_take_all: "\<forall>x\<in>set xs. P x \<Longrightarrow> filter P (take n xs) = take n xs"
  by (metis filter_True in_set_takeD)

lemma filter_take_none: "\<forall>x\<in>set xs. \<not> P x \<Longrightarrow> filter P (take n xs) = []"
  by (metis filter_False in_set_takeD)

lemma addToHistory_updated_eq:
  "addToHistory_updated now i t prev =
     \<lparr>id_h = i, title_h = t, timestamp = now\<rparr> # take 19 (filter (\<lambda>x. id_h x \<noteq> i) prev)"
  by (simp add: addToHistory_updated_def MAX_HISTORY_def take_Cons')

lemma addToHistory_updated_one:
  "filter (\<lambda>x. id_h x = i) (addToHistory_updated now i t prev) =
     [\<lparr>id_h = i, title_h = t, timestamp = now\<rparr>]"
  by (simp add: addToHistory_updated_eq filter_take_none)

lemma addToHistory_updated_twice:
  "addToHistory_updated now2 i t2 (addToHistory_updated now1 i t1 prev) =
     addToHistory_updated now2 i t2 prev"
  by (simp add: addToHistory_updated_eq filter_take_all)

lemma addToHistory_updated_full:
  assumes "length prev = 20" "i \<notin> id_h ` set prev"
  shows "addToHistory_updated now i t prev =
           \<lparr>id_h = i, title_h = t, timestamp = now\<rparr> # butlast prev"
proof -
  have "filter (\<lambda>x. id_h x \<noteq> i) prev = prev"
    using assms(2) by (auto simp: filter_id_conv)
  then show ?thesis
    using assms(1) by (simp add: addToHistory_updated_eq butlast_conv_take)
qed

lemma addToHistory_updated_evicts:
  assumes "length prev = 20" "i \<notin> id_h ` set prev" "distinct (map id_h prev)"
  shows "id_h (last prev) \<notin> id_h ` set (addToHistory_updated now i t prev)"
proof -
  have ne: "prev \<noteq> []" using assms(1) by auto
  then have "prev = butlast prev @ [last prev]" by simp
  then have "distinct (map id_h (butlast prev @ [last prev]))" using assms(3) by simp
  then have "id_h (last prev) \<notin> id_h ` set (butlast prev)" by simp
  moreover have "id_h (last prev) \<noteq> i" using assms(2) ne by (metis image_eqI last_in_set)
  ultimately show ?thesis using addToHistory_updated_full[OF assms(1,2)] by simp
qed

text \<open>
  Claim C1. Recording a search with identifier \<open>i\<close> and title \<open>t\<close> replaces the history by
  the new entry, stamped with the current time, followed by the old entries whose
  identifier is not \<open>i\<close>, cut to the first 20, and hands that list to the storage adapter
  under the history key. The result holds exactly one entry for \<open>i\<close>, the new one, at
  the front. Recording \<open>i\<close> a second time gives the same list as recording it once, with
  the later title and time. Recording an identifier that is new to a full history of 20
  distinct identifiers drops the last (oldest) entry and keeps the others in order.
\<close>

theorem C1_record_search:
  "history (addToHistory E i t s) = addToHistory_updated (Date_now E) i t (history s)
   \<and> storage (addToHistory E i t s) =
       setToStorage (stringify_history E) (storage s) HISTORY
         (addToHistory_updated (Date_now E) i t (history s))
   \<and> addToHistory_updated now i t prev =
       take 20 (\<lparr>id_h = i, title_h = t, timestamp = now\<rparr> # filter (\<lambda>x. id_h x \<noteq> i) prev)
   \<and> filter (\<lambda>x. id_h x = i) (addToHistory_updated now i t prev) =
       [\<lparr>id_h = i, title_h = t, timestamp = now\<rparr>]
   \<and> hd (addToHistory_updated now i t prev) = \<lparr>id_h = i, title_h = t, timestamp = now\<rparr>
   \<and> length (addToHistory_updated now i t prev) \<le> 20
   \<and> addToHistory_updated now' i t' (addToHistory_updated now i t prev) =
       \<lparr>id_h = i, title_h = t', timestamp = now'\<rparr> # take 19 (filter (\<lambda>x. id_h x \<noteq> i) prev)
   \<and> (length prev = 20 \<and> distinct (map id_h prev) \<and> i \<notin> id_h ` set prev \<longrightarrow>
        addToHistory_updated now i t prev =
          \<lparr>id_h = i, title_h = t, timestamp = now\<rparr> # butlast prev
        \<and> id_h (last prev) \<notin> id_h ` set (addToHistory_updated now i t prev))"
proof -
  have "history (addToHistory E i t s) = addToHistory_updated (Date_now E) i t (history s)"
    by (simp add: addToHistory_def Let_def)
  moreover have "storage (addToHistory E i t s) =
       setToStorage (stringify_history E) (storage s) HISTORY
         (addToHistory_updated (Date_now E) i t (history s))"
    by (simp add: addToHistory_def Let_def)
  moreover have "addToHistory_updated now i t prev =
       take 20 (\<lparr>id_h = i, title_h = t, timestamp = now\<rparr> # filter (\<lambda>x. id_h x \<noteq> i) prev)"
    by (simp add: addToHistory_updated_def MAX_HISTORY_def)
  moreover have "hd (addToHistory_updated now i t prev) = \<lparr>id_h = i, title_h = t, timestamp = now\<rparr>"
    by (simp add: addToHistory_updated_eq)
  moreover have "length (addToHistory_updated now i t prev) \<le> 20"
    by (simp add: addToHistory_updated_def MAX_HISTORY_def)
  moreover have "addToHistory_updated now' i t' (addToHistory_updated now i t prev) =
       \<lparr>id_h = i, title_h = t', timestamp = now'\<rparr> # take 19 (filter (\<lambda>x. id_h x \<noteq> i) prev)"
    unfolding addToHistory_updated_twice by (rule addToHistory_updated_eq)
  ultimately show ?thesis
    using addToHistory_updated_one addToHistory_updated_full addToHistory_updated_evicts
    by blast
qed

theorem C1_record_search_witness:
  "length example_history = 20 \<and> distinct (map id_h example_history)
   \<and> ''u'' \<notin> id_h ` set example_history
   \<and> addToHistory_updated 2000 ''u'' ''Title u'' example_history =
       \<lparr>id_h = ''u'', title_h = ''Title u'', timestamp = 2000\<rparr> # butlast example_history
   \<and> id_h (last example_history) = ''t''
   \<and> ''t'' \<notin> id_h ` set (addToHistory_updated 2000 ''u'' ''Title u'' example_history)"
proof -
  have h: "length example_history = 20 \<and> distinct (map id_h example_history)
           \<and> ''u'' \<notin> id_h ` set example_history"
    by (simp add: example_history_def)
  have l: "id_h (last example_history) = ''t''"
    by (simp add: example_history_def)
  have c: "addToHistory_updated 2000 ''u'' ''Title u'' example_history =
             \<lparr>id_h = ''u'', title_h = ''Title u'', timestamp = 2000\<rparr> # butlast example_history
           \<and> id_h (last example_history)
               \<notin> id_h ` set (addToHistory_updated 2000 ''u'' ''Title u'' example_history)"
    using h C1_record_search
            [of example_env "''u''" "''Title u''" initial_app 2000 example_history]
    by blast
  show ?thesis
    using h c unfolding l by blast
qed

section \<open>Properties of the runtime formatting\<close>

lemma js_rem_nonneg: "0 \<le> a \<Longrightarrow> 0 < b \<Longrightarrow> js_rem a b = a mod b"
  by (cases "a = 0") (simp_all add: js_rem_def)

lemma formatRuntime_cases:
  "formatRuntime seconds =
     (if 3600 \<le> seconds
      then number_toString (seconds div 3600) @ ''h '' @
           number_toString (js_rem seconds 3600 div 60) @ ''m''
      else number_toString (js_rem seconds 3600 div 60) @ ''m'')"
proof -
  have "(0 < seconds div 3600) = (3600 \<le> seconds)"
    by (simp add: pos_imp_zdiv_pos_iff)
  then show ?thesis by (simp add: formatRuntime_def Let_def)
qed

lemma hours_minutes_split:
  "0 \<le> (s::int) \<Longrightarrow> s = 3600 * (s div 3600) + 60 * ((s mod 3600) div 60) + s mod 60"
proof -
  have "s mod 3600 = 60 * ((s mod 3600) div 60) + (s mod 3600) mod 60" by simp
  moreover have "(s mod 3600) mod 60 = s mod 60" by (simp add: mod_mod_cancel)
  moreover have "s = 3600 * (s div 3600) + s mod 3600" by simp
  ultimately show ?thesis by linarith
qed

text \<open>The digits that \<open>decimal_digits\<close> writes are the decimal digits of the number.\<close>

lemma digit_value_chars:
  "map digit_value digit_chars = map Some [0, 1, 2, 3, 4, 5, 6, 7, 8, 9]"
  by (simp add: digit_chars_def digit_value_def)

lemma digits_value_digit: "n < 10 \<Longrightarrow> digits_value 10 [digit_chars ! n] = n"
proof -
  assume n: "n < 10"
  note dv = digit_value_chars [unfolded digit_chars_def, simplified]
  have "n \<in> {0, 1, 2, 3, 4, 5, 6, 7, 8, 9}"
    using n by auto
  then show ?thesis
    using dv by (auto simp: digits_value_def digit_chars_def)
qed

lemma digits_value_snoc:
  "digits_value r (ds @ [c]) =
     digits_value r ds * r + (case digit_value c of None \<Rightarrow> 0 | Some d \<Rightarrow> d)"
  by (simp add: digits_value_def)

lemma digits_value_decimal_digits: "digits_value 10 (decimal_digits n) = n"
proof (induction n rule: decimal_digits.induct)
  case (1 n)
  show ?case
  proof (cases "n < 10")
    case True
    then show ?thesis by (subst decimal_digits.simps) (simp add: digits_value_digit)
  next
    case False
    have d: "digits_value 10 [digit_chars ! (n mod 10)] = n mod 10"
      by (rule digits_value_digit) simp
    have "digits_value 10 (decimal_digits n) =
            digits_value 10 (decimal_digits (n div 10)) * 10
            + digits_value 10 [digit_chars ! (n mod 10)]"
      using False by (subst decimal_digits.simps) (simp add: digits_value_snoc digits_value_def)
    then show ?thesis using 1 False d by simp
  qed
qed

lemma exportAsMarkdown_runtime:
  "sublist (''- **Runtime:** '' @ formatRuntime (runtimeSec e) @ [CHR 0x0A])
     (exportAsMarkdown fd e)"
proof -
  define pre where
    "pre = ''# '' @ title e @ '' ('' @ number_toString (latestYear e) @ '')'' @ [CHR 0x0A] @
           [CHR 0x0A] @ ''## Overview'' @ [CHR 0x0A] @
           ''- **Video ID:** '' @ number_toString (videoId e) @ [CHR 0x0A] @
           ''- **Type:** '' @ typename e @ [CHR 0x0A]"
  have "\<exists>post. exportAsMarkdown fd e =
          pre @ (''- **Runtime:** '' @ formatRuntime (runtimeSec e) @ [CHR 0x0A]) @ post"
    by (simp add: exportAsMarkdown_def Let_def pre_def)
  then show ?thesis
    by (auto simp: sublist_def)
qed

text \<open>
  Claim C8. \<open>formatRuntime\<close> writes \<open>Hh Mm\<close> when the runtime is at least 3600 seconds and
  \<open>Mm\<close> otherwise. For a runtime that is not negative, \<open>H\<close> and \<open>M\<close> are the whole hours
  and the whole minutes left over (fewer than 60, with fewer than 60 seconds dropped),
  written in decimal. 5400 seconds are \<open>1h 30m\<close>, 125 seconds are \<open>2m\<close>, and the Markdown
  export carries the line \<open>- **Runtime:** \<close> followed by that text.
\<close>

theorem C8_format_runtime:
  "formatRuntime seconds =
     (if 3600 \<le> seconds
      then number_toString (seconds div 3600) @ ''h '' @
           number_toString (js_rem seconds 3600 div 60) @ ''m''
      else number_toString (js_rem seconds 3600 div 60) @ ''m'')
   \<and> (0 \<le> seconds \<longrightarrow>
        js_rem seconds 3600 div 60 = seconds mod 3600 div 60
        \<and> 0 \<le> seconds mod 3600 div 60 \<and> seconds mod 3600 div 60 < 60
        \<and> seconds = 3600 * (seconds div 3600) + 60 * (seconds mod 3600 div 60) + seconds mod 60
        \<and> int (digits_value 10 (number_toString (seconds div 3600))) = seconds div 3600
        \<and> int (digits_value 10 (number_toString (seconds mod 3600 div 60))) =
            seconds mod 3600 div 60)
   \<and> formatRuntime 5400 = ''1h 30m''
   \<and> formatRuntime 125 = ''2m''
   \<and> sublist (''- **Runtime:** '' @ formatRuntime (runtimeSec e) @ [CHR 0x0A])
        (exportAsMarkdown fd e)"
proof -
  have a: "formatRuntime 5400 = ''1h 30m''"
    by (simp add: formatRuntime_def js_rem_def number_toString_def decimal_digits.simps
          digit_chars_def)
  have b: "formatRuntime 125 = ''2m''"
    by (simp add: formatRuntime_def js_rem_def number_toString_def decimal_digits.simps
          digit_chars_def)
  have c: "int (digits_value 10 (number_toString k)) = k" if "0 \<le> k" for k
    using that by (simp add: number_toString_def digits_value_decimal_digits)
  have d: "0 \<le> seconds \<longrightarrow>
        js_rem seconds 3600 div 60 = seconds mod 3600 div 60
        \<and> 0 \<le> seconds mod 3600 div 60 \<and> seconds mod 3600 div 60 < 60
        \<and> seconds = 3600 * (seconds div 3600) + 60 * (seconds mod 3600 div 60) + seconds mod 60
        \<and> int (digits_value 10 (number_toString (seconds div 3600))) = seconds div 3600
        \<and> int (digits_value 10 (number_toString (seconds mod 3600 div 60))) =
            seconds mod 3600 div 60"
  proof
    assume nn: "0 \<le> seconds"
    have "js_rem seconds 3600 div 60 = seconds mod 3600 div 60"
      using nn by (simp add: js_rem_nonneg)
    moreover have "0 \<le> seconds mod 3600 div 60" by simp
    moreover have "seconds mod 3600 div 60 < 60"
    proof -
      have "seconds mod 3600 < 3600" by simp
      then show ?thesis by linarith
    qed
    moreover have "0 \<le> seconds div 3600" using nn by (simp add: pos_imp_zdiv_nonneg_iff)
    ultimately show "js_rem seconds 3600 div 60 = seconds mod 3600 div 60
        \<and> 0 \<le> seconds mod 3600 div 60 \<and> seconds mod 3600 div 60 < 60
        \<and> seconds = 3600 * (seconds div 3600) + 60 * (seconds mod 3600 div 60) + seconds mod 60
        \<and> int (digits_value 10 (number_toString (seconds div 3600))) = seconds div 3600
        \<and> int (digits_value 10 (number_toString (seconds mod 3600 div 60))) =
            seconds mod 3600 div 60"
      using hours_minutes_split [OF nn] c by blast
  qed
  show ?thesis
    using formatRuntime_cases a b d exportAsMarkdown_runtime by blast
qed

theorem C8_format_runtime_witness:
  "(0::int) \<le> 7384 \<and> formatRuntime 7384 = ''2h 3m''
   \<and> (7384::int) = 3600 * 2 + 60 * 3 + 4
   \<and> sublist (''- **Runtime:** 1h 30m'' @ [CHR 0x0A]) (exportAsMarkdown (\<lambda>d. d) (example_entity ''Example''))"
proof -
  have r: "runtimeSec (example_entity ''Example'') = 5400"
    by (simp add: example_entity_def)
  have s: "number_toString 2 = ''2''" "number_toString 3 = ''3''"
    by (simp_all add: number_toString_def decimal_digits.simps digit_chars_def)
  note T = C8_format_runtime [of 7384 "example_entity ''Example''" "\<lambda>d. d"]
  have f: "formatRuntime 7384 = ''2h 3m''"
    using T [THEN conjunct1] by (simp add: js_rem_def s)
  have g: "formatRuntime 5400 = ''1h 30m''"
    using T by blast
  have "sublist (''- **Runtime:** '' @ formatRuntime (runtimeSec (example_entity ''Example''))
                   @ [CHR 0x0A])
          (exportAsMarkdown (\<lambda>d. d) (example_entity ''Example''))"
    using T by blast
  then have "sublist (''- **Runtime:** 1h 30m'' @ [CHR 0x0A])
               (exportAsMarkdown (\<lambda>d. d) (example_entity ''Example''))"
    by (simp add: r g)
  then show ?thesis
    using f by simp
qed

section \<open>Properties of the storage adapter\<close>

lemma map_of_put: "map_of (put k v kvs) k = Some v"
  by (induction kvs) auto

lemma map_of_put_other: "k' \<noteq> k \<Longrightarrow> map_of (put k v kvs) k' = map_of kvs k'"
  by (induction kvs) auto

lemma getFromStorage_absent:
  "getItem ls key = Inr None \<Longrightarrow> getFromStorage parse ls key d = d"
  by (simp add: getFromStorage_def getFromStorage_try_def)

lemma getFromStorage_unreadable:
  "getItem ls key = Inl e \<Longrightarrow> getFromStorage parse ls key d = d"
  by (simp add: getFromStorage_def getFromStorage_try_def)

lemma getFromStorage_unparsed:
  "getItem ls key = Inr (Some item) \<Longrightarrow> parse item = Inl e \<Longrightarrow>
     getFromStorage parse ls key d = d"
  by (simp add: getFromStorage_def getFromStorage_try_def)

lemma getFromStorage_parsed:
  "getItem ls key = Inr (Some item) \<Longrightarrow> item \<noteq> [] \<Longrightarrow> parse item = Inr v \<Longrightarrow>
     getFromStorage parse ls key d = v"
  by (simp add: getFromStorage_def getFromStorage_try_def)

lemma setToStorage_unserialised:
  "stringify v = Inl e \<Longrightarrow> setToStorage stringify ls key v = ls"
  by (simp add: setToStorage_def setToStorage_try_def)

lemma setToStorage_refused:
  "stringify v = Inr ser \<Longrightarrow> setItem ls key ser = Inl e \<Longrightarrow>
     setToStorage stringify ls key v = ls"
  by (simp add: setToStorage_def setToStorage_try_def)

lemma setToStorage_stored:
  "stringify v = Inr ser \<Longrightarrow> setItem ls key ser = Inr ls' \<Longrightarrow>
     setToStorage stringify ls key v = ls' \<and> getItem ls' key = Inr (Some ser)"
  by (auto simp: setToStorage_def setToStorage_try_def setItem_def getItem_def map_of_put
           split: if_splits)

text \<open>
  Claim C7. A read returns the caller's default when the key is absent, when
  \<^verbatim>\<open>getItem\<close> throws, and when the stored text does not parse; a stored text that is not
  empty and parses is returned parsed. A write whose \<^verbatim>\<open>JSON.stringify\<close> or \<^verbatim>\<open>setItem\<close>
  throws (storage disabled, quota exceeded) returns the storage as it was; a write that
  goes through stores the text under the key. Neither function has an error among its
  results: what the \<^verbatim>\<open>try\<close> block throws ends in the \<^verbatim>\<open>catch\<close>.
\<close>

theorem C7_storage_adapter:
  "(getItem ls key = Inr None \<longrightarrow> getFromStorage parse ls key d = d)
   \<and> (getItem ls key = Inl e \<longrightarrow> getFromStorage parse ls key d = d)
   \<and> (getItem ls key = Inr (Some item) \<and> parse item = Inl e \<longrightarrow>
        getFromStorage parse ls key d = d)
   \<and> (getItem ls key = Inr (Some item) \<and> item \<noteq> [] \<and> parse item = Inr v' \<longrightarrow>
        getFromStorage parse ls key d = v')
   \<and> (getFromStorage_try parse ls key d = Inl e \<longrightarrow> getFromStorage parse ls key d = d)
   \<and> (stringify v = Inl e \<longrightarrow> setToStorage stringify ls key v = ls)
   \<and> (stringify v = Inr ser \<and> setItem ls key ser = Inl e \<longrightarrow>
        setToStorage stringify ls key v = ls)
   \<and> (setToStorage_try stringify ls key v = Inl e \<longrightarrow> setToStorage stringify ls key v = ls)
   \<and> (disabled ls \<longrightarrow>
        getFromStorage parse ls key d = d \<and> setToStorage stringify ls key v = ls)
   \<and> (stringify v = Inr ser \<and> quota ls < usage (put key ser (items ls)) \<longrightarrow>
        setToStorage stringify ls key v = ls)
   \<and> (stringify v = Inr ser \<and> setItem ls key ser = Inr ls' \<longrightarrow>
        setToStorage stringify ls key v = ls' \<and> getItem ls' key = Inr (Some ser))"
proof -
  have "getFromStorage_try parse ls key d = Inl e \<longrightarrow> getFromStorage parse ls key d = d"
    by (simp add: getFromStorage_def)
  moreover have "setToStorage_try stringify ls key v = Inl e \<longrightarrow>
                   setToStorage stringify ls key v = ls"
    by (simp add: setToStorage_def)
  moreover have "disabled ls \<longrightarrow>
        getFromStorage parse ls key d = d \<and> setToStorage stringify ls key v = ls"
    by (simp add: getFromStorage_def getFromStorage_try_def getItem_def setToStorage_def
          setToStorage_try_def setItem_def split: sum.splits)
  moreover have "stringify v = Inr ser \<and> quota ls < usage (put key ser (items ls)) \<longrightarrow>
        setToStorage stringify ls key v = ls"
    by (simp add: setToStorage_def setToStorage_try_def setItem_def)
  ultimately show ?thesis
    using getFromStorage_absent [of ls key parse d]
      getFromStorage_unreadable [of ls key e parse d]
      getFromStorage_unparsed [of ls key item parse e d]
      getFromStorage_parsed [of ls key item parse v' d]
      setToStorage_unserialised [of stringify v e ls key]
      setToStorage_refused [of stringify v ser ls key e]
      setToStorage_stored [of stringify v ser ls key ls']
    by blast
qed

theorem C7_storage_adapter_witness:
  "getItem example_storage ''nf-history'' = Inr None
   \<and> getFromStorage parse_text example_storage ''nf-history'' ''dark'' = ''dark''
   \<and> getItem example_storage ''nf-broken'' = Inr (Some ''{oops'')
   \<and> parse_text ''{oops'' = Inl (Error ''SyntaxError'')
   \<and> getFromStorage parse_text example_storage ''nf-broken'' ''dark'' = ''dark''
   \<and> getItem (example_storage\<lparr>disabled := True\<rparr>) ''nf-theme'' = Inl (Error ''SecurityError'')
   \<and> getFromStorage parse_text (example_storage\<lparr>disabled := True\<rparr>) ''nf-theme'' ''dark''
       = ''dark''
   \<and> setToStorage stringify_text (example_storage\<lparr>disabled := True\<rparr>) ''nf-theme'' ''dark''
       = example_storage\<lparr>disabled := True\<rparr>
   \<and> stringify_text ''a long theme name'' = Inr ([CHR 0x22] @ ''a long theme name'' @ [CHR 0x22])
   \<and> setItem example_storage ''nf-theme'' ([CHR 0x22] @ ''a long theme name'' @ [CHR 0x22])
       = Inl (Error ''QuotaExceededError'')
   \<and> setToStorage stringify_text example_storage ''nf-theme'' ''a long theme name''
       = example_storage"
proof -
  have a: "getItem example_storage ''nf-history'' = Inr None"
    by (simp add: getItem_def example_storage_def)
  have b: "getItem example_storage ''nf-broken'' = Inr (Some ''{oops'')"
    by (simp add: getItem_def example_storage_def)
  have c: "parse_text ''{oops'' = Inl (Error ''SyntaxError'')"
    by (simp add: parse_text_def)
  have d: "getItem (example_storage\<lparr>disabled := True\<rparr>) ''nf-theme''
             = Inl (Error ''SecurityError'')"
    by (simp add: getItem_def)
  have e: "disabled (example_storage\<lparr>disabled := True\<rparr>)"
    by simp
  have f: "stringify_text ''a long theme name''
             = Inr ([CHR 0x22] @ ''a long theme name'' @ [CHR 0x22])"
    by (simp add: stringify_text_def)
  have g: "setItem example_storage ''nf-theme'' ([CHR 0x22] @ ''a long theme name'' @ [CHR 0x22])
             = Inl (Error ''QuotaExceededError'')"
    by (simp add: setItem_def example_storage_def usage_def)
  have 1: "getFromStorage parse_text example_storage ''nf-history'' ''dark'' = ''dark''"
    using a C7_storage_adapter [of example_storage "''nf-history''" parse_text "''dark''"
        Thrown "[]" "[]" stringify_text "[]" "[]" example_storage]
    by blast
  have 2: "getFromStorage parse_text example_storage ''nf-broken'' ''dark'' = ''dark''"
    using b c C7_storage_adapter [of example_storage "''nf-broken''" parse_text "''dark''"
        "Error ''SyntaxError''" "''{oops''" "[]" stringify_text "[]" "[]" example_storage]
    by blast
  have 3: "getFromStorage parse_text (example_storage\<lparr>disabled := True\<rparr>) ''nf-theme'' ''dark''
             = ''dark''
           \<and> setToStorage stringify_text (example_storage\<lparr>disabled := True\<rparr>) ''nf-theme''
               ''dark'' = example_storage\<lparr>disabled := True\<rparr>"
    using e C7_storage_adapter [of "example_storage\<lparr>disabled := True\<rparr>" "''nf-theme''"
        parse_text "''dark''" Thrown "[]" "[]" stringify_text "''dark''" "[]" example_storage]
    by blast
  have 4: "setToStorage stringify_text example_storage ''nf-theme'' ''a long theme name''
             = example_storage"
    using f g C7_storage_adapter [of example_storage "''nf-theme''" parse_text "''dark''"
        "Error ''QuotaExceededError''" "[]" "[]" stringify_text "''a long theme name''"
        "[CHR 0x22] @ ''a long theme name'' @ [CHR 0x22]" example_storage]
    by blast
  show ?thesis
    using a b c d f g 1 2 3 4 by blast
qed

section \<open>Properties of the autocomplete filter\<close>









section \<open>Properties of the analytics counter\<close>

lemma foldl_plus_sum_list: "foldl (+) (z::int) xs = z + sum_list xs"
  by (induction xs arbitrary: z) simp_all

lemma Math_round_quotient:
  "0 < n \<Longrightarrow> Math_round (rat_of_int s / rat_of_int n) = (2 * s + n) div (2 * n)"
proof -
  assume n: "0 < n"
  have "rat_of_int s / rat_of_int n + 1 / 2 = rat_of_int (2 * s + n) / rat_of_int (2 * n)"
    using n by (simp add: field_simps)
  then show ?thesis
    unfolding Math_round_def by (simp only: floor_divide_of_int_eq)
qed

lemma Math_round_near:
  "rat_of_int (Math_round x) \<le> x + 1 / 2 \<and> x - 1 / 2 < rat_of_int (Math_round x)"
  unfolding Math_round_def by linarith

lemma slice_last_snoc: "slice_last n (slice_last n xs @ [y]) = slice_last n (xs @ [y])"
proof -
  have "Suc (length xs) - (length xs - n + n) + (length xs - n) = Suc (length xs) - n"
    by arith
  then show ?thesis
    by (auto simp: slice_last_def)
qed

lemma slice_last_idem: "slice_last n (slice_last n xs) = slice_last n xs"
  by (auto simp: slice_last_def)

lemma slice_last_51: "length ts = 51 \<Longrightarrow> slice_last 50 (xs @ ts) = drop 1 ts"
  by (simp add: slice_last_def)

lemma track_all_snoc:
  "track_all (calls @ [c]) a = trackSearch_updated (fst c) (snd c) (track_all calls a)"
  by (simp add: track_all_def)

lemma searchTimes_updated:
  "searchTimes (trackSearch_updated i rt a) = slice_last 50 (searchTimes a @ [rt])"
  by (simp add: trackSearch_updated_def Let_def)

lemma searchTimes_track_all_slice:
  "slice_last 50 (searchTimes (track_all calls a)) = slice_last 50 (searchTimes a @ map snd calls)"
proof (induction calls rule: rev_induct)
  case Nil
  show ?case by (simp add: track_all_def)
next
  case (snoc c calls)
  have "slice_last 50 (searchTimes (track_all (calls @ [c]) a)) =
          slice_last 50 (slice_last 50 (searchTimes (track_all calls a)) @ [snd c])"
    by (simp only: track_all_snoc searchTimes_updated slice_last_idem slice_last_snoc)
  also have "\<dots> = slice_last 50 (slice_last 50 (searchTimes a @ map snd calls) @ [snd c])"
    by (simp only: snoc.IH)
  also have "\<dots> = slice_last 50 (searchTimes a @ map snd (calls @ [c]))"
    by (simp add: slice_last_snoc)
  finally show ?case .
qed

lemma searchTimes_track_all:
  "calls \<noteq> [] \<Longrightarrow>
     searchTimes (track_all calls a) = slice_last 50 (searchTimes a @ map snd calls)"
proof (induction calls rule: rev_induct)
  case Nil
  then show ?case by simp
next
  case (snoc c calls)
  have "searchTimes (track_all (calls @ [c]) a) =
          slice_last 50 (slice_last 50 (searchTimes (track_all calls a)) @ [snd c])"
    by (simp only: track_all_snoc searchTimes_updated slice_last_snoc)
  then show ?case
    by (simp add: searchTimes_track_all_slice slice_last_snoc)
qed

lemma totalSearches_track_all:
  "totalSearches (track_all calls a) = totalSearches a + int (length calls)"
  by (induction calls rule: rev_induct)
     (simp_all add: track_all_def trackSearch_updated_def Let_def)

lemma avgResponseTime_updated:
  "avgResponseTime (trackSearch_updated i rt a) =
     Math_round (rat_of_int (sum_list (searchTimes (trackSearch_updated i rt a)))
                 / rat_of_int (int (length (searchTimes (trackSearch_updated i rt a)))))"
  by (simp add: trackSearch_updated_def Let_def foldl_plus_sum_list)

lemma avgResponseTime_track_all:
  "calls \<noteq> [] \<Longrightarrow>
     avgResponseTime (track_all calls a) =
       Math_round (rat_of_int (sum_list (searchTimes (track_all calls a)))
                   / rat_of_int (int (length (searchTimes (track_all calls a)))))"
  by (cases calls rule: rev_cases) (simp_all only: track_all_snoc avgResponseTime_updated)

lemma track_all_51:
  assumes "length calls = 51"
  shows "searchTimes (track_all calls a) = drop 1 (map snd calls)"
    and "avgResponseTime (track_all calls a) =
           Math_round (rat_of_int (sum_list (drop 1 (map snd calls))) / 50)"
proof -
  have ne: "calls \<noteq> []" using assms by auto
  show w: "searchTimes (track_all calls a) = drop 1 (map snd calls)"
    using assms by (simp add: searchTimes_track_all [OF ne] slice_last_51)
  have "length (drop 1 (map snd calls)) = 50" using assms by simp
  then show "avgResponseTime (track_all calls a) =
           Math_round (rat_of_int (sum_list (drop 1 (map snd calls))) / 50)"
    by (simp add: avgResponseTime_track_all [OF ne] w)
qed

lemma example_calls_facts:
  "length example_calls = 51"
  "drop 1 (map snd example_calls) = map int [2..<52]"
  "sum_list (drop 1 (map snd example_calls)) = 1325"
  by (code_simp, code_simp, code_simp)

text \<open>
  Claim C2 as it is written fails: the reported average is the mean passed through
  \<^verbatim>\<open>Math.round\<close>. After the times 1 to 51 the window holds 2 to 51, whose mean is 53/2,
  and the reported average is 27.
\<close>

theorem C2_mean_counterexample:
  "length example_calls = 51
   \<and> searchTimes (track_all example_calls initial_analytics) = drop 1 (map snd example_calls)
   \<and> rat_of_int (sum_list (drop 1 (map snd example_calls))) / 50 = 53 / 2
   \<and> avgResponseTime (track_all example_calls initial_analytics) = 27
   \<and> rat_of_int (avgResponseTime (track_all example_calls initial_analytics))
       \<noteq> rat_of_int (sum_list (drop 1 (map snd example_calls))) / 50"
proof -
  have m: "rat_of_int (sum_list (drop 1 (map snd example_calls))) / 50 = 53 / 2"
    by (simp only: example_calls_facts(3))
  have "avgResponseTime (track_all example_calls initial_analytics) = Math_round (53 / 2)"
    by (simp only: track_all_51(2) [OF example_calls_facts(1)] m)
  also have "\<dots> = 27"
    by (simp add: Math_round_def)
  finally have a: "avgResponseTime (track_all example_calls initial_analytics) = 27" .
  show ?thesis
    using track_all_51(1) [OF example_calls_facts(1), of initial_analytics] m a
      example_calls_facts(1)
    by simp
qed

text \<open>
  Claim C2, amended. After any 51 calls of the track operation, from any snapshot, the
  window holds exactly the last 50 times in order, the reported average is their
  arithmetic mean rounded to the nearest integer (a tie upwards, so it is within one half
  of the mean), and the total has grown by 51: it is 51 when the run starts from the
  empty snapshot. Every call replaces the snapshot held by the application by the
  updated one.
\<close>

theorem C2_rolling_window:
  "length calls = 51 \<Longrightarrow>
     searchTimes (track_all calls a) = drop 1 (map snd calls)
     \<and> length (searchTimes (track_all calls a)) = 50
     \<and> avgResponseTime (track_all calls a) =
         Math_round (rat_of_int (sum_list (drop 1 (map snd calls))) / 50)
     \<and> rat_of_int (avgResponseTime (track_all calls a))
         \<le> rat_of_int (sum_list (drop 1 (map snd calls))) / 50 + 1 / 2
     \<and> rat_of_int (sum_list (drop 1 (map snd calls))) / 50 - 1 / 2
         < rat_of_int (avgResponseTime (track_all calls a))
     \<and> totalSearches (track_all calls a) = totalSearches a + 51
     \<and> totalSearches (track_all calls initial_analytics) = 51
     \<and> analytics (trackSearch E i rt s) = trackSearch_updated i rt (analytics s)"
proof -
  assume len: "length calls = 51"
  have w: "searchTimes (track_all calls a) = drop 1 (map snd calls)"
    by (rule track_all_51(1) [OF len])
  have l: "length (searchTimes (track_all calls a)) = 50"
    using len by (simp add: w)
  have avg: "avgResponseTime (track_all calls a) =
         Math_round (rat_of_int (sum_list (drop 1 (map snd calls))) / 50)"
    by (rule track_all_51(2) [OF len])
  have t: "totalSearches (track_all calls a) = totalSearches a + 51"
    using len by (simp add: totalSearches_track_all)
  have t0: "totalSearches (track_all calls initial_analytics) = 51"
    using len by (simp add: totalSearches_track_all initial_analytics_def)
  have app: "analytics (trackSearch E i rt s) = trackSearch_updated i rt (analytics s)"
    by (simp add: trackSearch_def Let_def)
  show ?thesis
    using w l avg t t0 app
      Math_round_near [of "rat_of_int (sum_list (drop 1 (map snd calls))) / 50"]
    by simp
qed

theorem C2_rolling_window_witness:
  "length example_calls = 51
   \<and> searchTimes (track_all example_calls initial_analytics) = map int [2..<52]
   \<and> avgResponseTime (track_all example_calls initial_analytics) = Math_round (1325 / 50)
   \<and> totalSearches (track_all example_calls initial_analytics) = 51"
proof -
  note T = C2_rolling_window [OF example_calls_facts(1), of initial_analytics example_env
      "''81767635''" 51 initial_app]
  have 1: "searchTimes (track_all example_calls initial_analytics) = map int [2..<52]"
    using T [THEN conjunct1] by (simp only: example_calls_facts(2))
  have 2: "avgResponseTime (track_all example_calls initial_analytics) = Math_round (1325 / 50)"
    using T [THEN conjunct2, THEN conjunct2, THEN conjunct1]
    by (simp only: example_calls_facts(3) of_int_numeral)
  have 3: "totalSearches (track_all example_calls initial_analytics) = 51"
    using T by blast
  show ?thesis
    using example_calls_facts(1) 1 2 3 by blast
qed

section \<open>Properties of the URL state\<close>

lemma sp_get_delete:
  "sp_get name' (sp_delete name ps) = (if name' = name then None else sp_get name' ps)"
  by (induction ps) (auto simp: sp_get_def sp_delete_def)

lemma sp_get_set:
  "sp_get name' (sp_set name v ps) = (if name' = name then Some v else sp_get name' ps)"
proof (induction ps)
  case Nil
  show ?case by (simp add: sp_get_def)
next
  case (Cons p ps)
  show ?case
  proof (cases "fst p = name")
    case True
    then show ?thesis
      using sp_get_delete [of name' name ps] by (cases p) (auto simp: sp_get_def)
  next
    case False
    then show ?thesis
      using Cons by (cases p) (auto simp: sp_get_def)
  qed
qed

lemma sp_delete_none: "filter (\<lambda>p. fst p = name) (sp_delete name ps) = []"
  by (induction ps) (auto simp: sp_delete_def)

lemma sp_set_one: "filter (\<lambda>p. fst p = name) (sp_set name v ps) = [(name, v)]"
  by (induction ps) (auto simp: sp_delete_none)

lemma window_read_rate_headers: "window (read_rate_headers resp s) = window s"
  by (simp add: read_rate_headers_def split: option.splits)

lemma window_handleSearch_try: "window (fst (handleSearch_try E vid s)) = window s"
  by (simp add: handleSearch_try_def Let_def window_read_rate_headers addToHistory_def
        trackSearch_def split: fetch_result.splits sum.splits parsed_body.splits list.splits)

lemma window_catch_finally: "window (catch_finally fb r) = window (fst r)"
  by (cases r) (simp add: catch_finally_def split: option.splits)

lemma window_handleSearch: "window (handleSearch E vid s) = setVideoIdToURL vid (window s)"
  by (simp add: handleSearch_def window_catch_finally window_handleSearch_try)

text \<open>
  Claim C4 as it is written fails: \<^verbatim>\<open>setVideoIdToURL\<close> calls \<^verbatim>\<open>history.pushState\<close>. On a
  fresh page, with one history entry, one search leaves two entries and the same search
  made again leaves three.
\<close>

theorem C4_push_counterexample:
  "history_length (window initial_app) = 1
   \<and> history_length (setVideoIdToURL ''81767635'' (window initial_app)) = 2
   \<and> back_entries (setVideoIdToURL ''81767635'' (window initial_app))
       = [href (window initial_app)]
   \<and> history_length
        (setVideoIdToURL ''81767635'' (setVideoIdToURL ''81767635'' (window initial_app))) = 3"
  by (simp add: history_length_def setVideoIdToURL_def pushState_def initial_app_def Let_def)

text \<open>
  Claim C4, amended. Writing an identifier shows, without a navigation, the current URL
  with the parameter \<open>v\<close> set to it (once) or, for the empty identifier, removed; the
  other parameters, the path and the fragment stay, and reading the URL back gives the
  identifier. Every write adds a browser history entry: the entry that was shown goes
  behind the new one and the entries ahead are dropped, so that at the end of the history
  its length grows by one. A single search makes exactly one such write.
\<close>

theorem C4_url_write_pushes:
  "href (setVideoIdToURL vid w) =
     (href w)\<lparr>searchParams :=
        (if vid \<noteq> [] then sp_set ''v'' vid (searchParams (href w))
         else sp_delete ''v'' (searchParams (href w)))\<rparr>
   \<and> getVideoIdFromURL (setVideoIdToURL vid w) = vid
   \<and> filter (\<lambda>p. fst p = ''v'') (searchParams (href (setVideoIdToURL vid w))) =
       (if vid \<noteq> [] then [(''v'', vid)] else [])
   \<and> (name \<noteq> ''v'' \<longrightarrow>
        sp_get name (searchParams (href (setVideoIdToURL vid w)))
          = sp_get name (searchParams (href w)))
   \<and> origin_path (href (setVideoIdToURL vid w)) = origin_path (href w)
   \<and> hash (href (setVideoIdToURL vid w)) = hash (href w)
   \<and> back_entries (setVideoIdToURL vid w) = back_entries w @ [href w]
   \<and> forward_entries (setVideoIdToURL vid w) = []
   \<and> (forward_entries w = [] \<longrightarrow>
        history_length (setVideoIdToURL vid w) = history_length w + 1)
   \<and> window (handleSearch E vid s) = setVideoIdToURL vid (window s)"
proof -
  have 1: "href (setVideoIdToURL vid w) =
     (href w)\<lparr>searchParams :=
        (if vid \<noteq> [] then sp_set ''v'' vid (searchParams (href w))
         else sp_delete ''v'' (searchParams (href w)))\<rparr>"
    by (simp add: setVideoIdToURL_def pushState_def Let_def)
  have 2: "getVideoIdFromURL (setVideoIdToURL vid w) = vid"
    by (simp add: getVideoIdFromURL_def 1 sp_get_set sp_get_delete or_else_def)
  have 3: "filter (\<lambda>p. fst p = ''v'') (searchParams (href (setVideoIdToURL vid w))) =
       (if vid \<noteq> [] then [(''v'', vid)] else [])"
    by (simp add: 1 sp_set_one sp_delete_none)
  have 4: "name \<noteq> ''v'' \<longrightarrow>
        sp_get name (searchParams (href (setVideoIdToURL vid w)))
          = sp_get name (searchParams (href w))"
    by (simp add: 1 sp_get_set sp_get_delete)
  have 5: "origin_path (href (setVideoIdToURL vid w)) = origin_path (href w)"
    "hash (href (setVideoIdToURL vid w)) = hash (href w)"
    by (simp_all add: 1)
  have 6: "back_entries (setVideoIdToURL vid w) = back_entries w @ [href w]"
    "forward_entries (setVideoIdToURL vid w) = []"
    by (simp_all add: setVideoIdToURL_def pushState_def Let_def)
  have 7: "forward_entries w = [] \<longrightarrow>
        history_length (setVideoIdToURL vid w) = history_length w + 1"
    by (simp add: history_length_def 6)
  show ?thesis
    using 1 2 3 4 5 6 7 window_handleSearch [of E vid s] by blast
qed

theorem C4_url_write_pushes_witness:
  "forward_entries (window initial_app) = []
   \<and> history_length (setVideoIdToURL ''81767635'' (window initial_app))
       = history_length (window initial_app) + 1
   \<and> ''theme'' \<noteq> ''v''
   \<and> sp_get ''theme'' (searchParams (href (setVideoIdToURL ''81767635'' (window initial_app))))
       = sp_get ''theme'' (searchParams (href (window initial_app)))
   \<and> getVideoIdFromURL (setVideoIdToURL ''81767635'' (window initial_app)) = ''81767635''"
proof -
  have h: "forward_entries (window initial_app) = []"
    by (simp add: initial_app_def)
  have n: "''theme'' \<noteq> ''v''"
    by simp
  show ?thesis
    using h n C4_url_write_pushes
      [of "''81767635''" "window initial_app" "''theme''" example_env initial_app]
    by blast
qed

section \<open>Properties of the batch search\<close>

lemma length_outcomes: "length (outcomes E n ids) = length ids"
  by (induction ids arbitrary: n) simp_all

lemma batch_loop_no_throw:
  "\<forall>r\<in>set (outcomes E (length reqs) ids). \<not> isl r \<Longrightarrow>
     batch_loop E ids ents reqs =
       (ents @ collected (outcomes E (length reqs) ids), reqs @ map api_url ids, None)"
proof (induction ids arbitrary: ents reqs)
  case Nil
  show ?case by simp
next
  case (Cons i ids)
  from Cons.prems have hd: "\<not> isl (request_outcome E (length reqs) i)"
    and tl: "\<forall>r\<in>set (outcomes E (length (reqs @ [api_url i])) ids). \<not> isl r"
    by simp_all
  show ?case
    using hd Cons.IH [OF tl]
    by (auto simp: request_outcome_def split: fetch_result.splits sum.splits parsed_body.splits list.splits)
qed

lemma batch_loop_throw:
  "k < length ids \<Longrightarrow> outcomes E (length reqs) ids ! k = Inl err \<Longrightarrow>
   \<forall>j<k. \<not> isl (outcomes E (length reqs) ids ! j) \<Longrightarrow>
     batch_loop E ids ents reqs =
       (ents @ collected (take k (outcomes E (length reqs) ids)),
        reqs @ map api_url (take (Suc k) ids), Some err)"
proof (induction ids arbitrary: k ents reqs)
  case Nil
  then show ?case by simp
next
  case (Cons i ids)
  show ?case
  proof (cases k)
    case 0
    with Cons.prems(2) have "request_outcome E (length reqs) i = Inl err" by simp
    then show ?thesis
      using 0 by (auto simp: request_outcome_def split: fetch_result.splits sum.splits parsed_body.splits)
  next
    case (Suc k')
    from Cons.prems(3) Suc have hd: "\<not> isl (request_outcome E (length reqs) i)"
      by (metis nth_Cons_0 outcomes.simps(2) zero_less_Suc)
    have a: "k' < length ids" using Cons.prems(1) Suc by simp
    have b: "outcomes E (length (reqs @ [api_url i])) ids ! k' = Inl err"
      using Cons.prems(2) Suc by simp
    have c: "\<forall>j<k'. \<not> isl (outcomes E (length (reqs @ [api_url i])) ids ! j)"
    proof (intro allI impI)
      fix j assume "j < k'"
      then have "Suc j < k" using Suc by simp
      with Cons.prems(3) have "\<not> isl (outcomes E (length reqs) (i # ids) ! Suc j)" by blast
      then show "\<not> isl (outcomes E (length (reqs @ [api_url i])) ids ! j)" by simp
    qed
    show ?thesis
      using hd Suc Cons.IH [OF a b c]
      by (auto simp: request_outcome_def split: fetch_result.splits sum.splits parsed_body.splits list.splits)
  qed
qed

lemma batch_loop_requests:
  "\<exists>k\<le>length ids. fst (snd (batch_loop E ids ents reqs)) = reqs @ map api_url (take k ids)"
proof (induction ids arbitrary: ents reqs)
  case Nil
  show ?case by simp
next
  case (Cons i ids)
  show ?case
  proof (cases "isl (request_outcome E (length reqs) i)")
    case True
    then have "fst (snd (batch_loop E (i # ids) ents reqs)) = reqs @ map api_url (take 1 (i # ids))"
      by (auto simp: request_outcome_def split: fetch_result.splits sum.splits parsed_body.splits)
    then show ?thesis by (intro exI [of _ 1]) simp
  next
    case False
    then obtain ents' where
      step: "batch_loop E (i # ids) ents reqs = batch_loop E ids ents' (reqs @ [api_url i])"
      by (auto simp: request_outcome_def split: fetch_result.splits sum.splits parsed_body.splits)
    from Cons.IH [of ents' "reqs @ [api_url i]"] obtain k where
      k: "k \<le> length ids"
        "fst (snd (batch_loop E ids ents' (reqs @ [api_url i]))) =
           (reqs @ [api_url i]) @ map api_url (take k ids)"
      by blast
    show ?thesis
      using k step by (intro exI [of _ "Suc k"]) simp
  qed
qed

lemma requests_handleBatchSearch:
  "requests (handleBatchSearch E ids s) = fst (snd (batch_loop E (take 4 ids) [] (requests s)))"
  by (simp add: handleBatchSearch_def handleBatchSearch_try_def catch_finally_def trackSearch_def
        Let_def split: prod.splits option.splits)

lemma rateLimit_handleBatchSearch:
  "rateLimit (handleBatchSearch E ids s) = rateLimit s"
  by (simp add: handleBatchSearch_def handleBatchSearch_try_def catch_finally_def trackSearch_def
        Let_def split: prod.splits option.splits)

lemma analytics_handleBatchSearch:
  "analytics (handleBatchSearch E ids s) =
     (if error (handleBatchSearch E ids s) = None
      then trackSearch_updated (join '','' ids) (Math_round (now_end E - now_start E)) (analytics s)
      else analytics s)"
  by (simp add: handleBatchSearch_def handleBatchSearch_try_def catch_finally_def trackSearch_def
        Let_def split: prod.splits option.splits)

lemma outcome_handleBatchSearch:
  "batch_loop E (take 4 ids) [] (requests s) = (ents, reqs, err) \<Longrightarrow>
     error (handleBatchSearch E ids s) =
       (case err of
          Some e \<Rightarrow> Some (message_of e ''Batch search failed'')
        | None \<Rightarrow> if ents = [] then Some ''No content found for any of the provided IDs'' else None)
     \<and> comparisonData (handleBatchSearch E ids s) =
         (case err of Some e \<Rightarrow> [] | None \<Rightarrow> ents)
     \<and> requests (handleBatchSearch E ids s) = reqs"
  by (simp add: handleBatchSearch_def handleBatchSearch_try_def catch_finally_def trackSearch_def
        Let_def message_of_def split: prod.splits option.splits)


lemma batch_loop_error_iff:
  "snd (snd (batch_loop E ids ents reqs)) = None \<longleftrightarrow>
     (\<forall>r\<in>set (outcomes E (length reqs) ids). \<not> isl r)"
proof (induction ids arbitrary: ents reqs)
  case Nil
  show ?case by simp
next
  case (Cons i ids)
  show ?case
  proof (cases "isl (request_outcome E (length reqs) i)")
    case True
    then show ?thesis
      by (auto simp: request_outcome_def split: fetch_result.splits sum.splits parsed_body.splits)
  next
    case False
    then obtain ents' where
      step: "batch_loop E (i # ids) ents reqs = batch_loop E ids ents' (reqs @ [api_url i])"
      by (auto simp: request_outcome_def split: fetch_result.splits sum.splits parsed_body.splits)
    show ?thesis
      using False Cons.IH [of ents' "reqs @ [api_url i]"]
      by (simp del: batch_loop.simps add: step)
  qed
qed

lemma rateLimit_read_rate_headers:
  "rateLimit (read_rate_headers resp s) =
     (case (headers resp ''X-RateLimit-Remaining'', headers resp ''X-RateLimit-Limit'') of
        (Some r, Some l) \<Rightarrow>
          if r \<noteq> [] \<and> l \<noteq> [] then \<lparr>remaining = parseInt r, limit = parseInt l\<rparr>
          else rateLimit s
      | _ \<Rightarrow> rateLimit s)"
  by (simp add: read_rate_headers_def split: option.splits)

lemma rateLimit_handleSearch_try:
  "rateLimit (fst (handleSearch_try E vid s)) =
     (case fetch E (length (requests s)) (api_url vid) of
        Rejected e \<Rightarrow> rateLimit s
      | Response resp \<Rightarrow> rateLimit (read_rate_headers resp s))"
  by (simp add: handleSearch_try_def Let_def rateLimit_read_rate_headers addToHistory_def
        trackSearch_def split: fetch_result.splits sum.splits parsed_body.splits list.splits option.splits)

lemma rateLimit_catch_finally: "rateLimit (catch_finally fb r) = rateLimit (fst r)"
  by (cases r) (simp add: catch_finally_def split: option.splits)

lemma rateLimit_handleSearch:
  "rateLimit (handleSearch E vid s) =
     (case fetch E (length (requests s)) (api_url vid) of
        Rejected e \<Rightarrow> rateLimit s
      | Response resp \<Rightarrow> rateLimit (read_rate_headers resp s))"
  by (simp add: handleSearch_def rateLimit_catch_finally rateLimit_handleSearch_try
        rateLimit_read_rate_headers split: fetch_result.splits option.splits)

lemma parseInt_examples: "parseInt ''42'' = Some 42" "parseInt ''100'' = Some 100"
  by (simp_all add: parseInt_def isWhiteSpace_def is_digit_def digit_value_def
        digits_value_def Let_def)

text \<open>
  Claim C5 holds on the single-search path (\<open>rateLimit_handleSearch\<close>: the state is
  overwritten from the two headers when both are present and not empty, and is kept
  otherwise) and fails on the batch path, which never reads the headers
  (\<open>rateLimit_handleBatchSearch\<close>). For one and the same response, carrying the headers
  42 and 100, the single search stores them and the batch search leaves the state at its
  initial 100 and 100.
\<close>

theorem C5_batch_ignores_rate_headers:
  "fetch rate_env 0 (api_url ''A'') =
     Response \<lparr>ok = True, headers = rate_headers,
               json = Inr (Body \<lparr>data_r = Some \<lparr>unifiedEntities = Some [example_entity ''A'']\<rparr>,
                                error_r = None\<rparr>)\<rparr>
   \<and> rate_headers ''X-RateLimit-Remaining'' = Some ''42''
   \<and> rate_headers ''X-RateLimit-Limit'' = Some ''100''
   \<and> rateLimit initial_app = \<lparr>remaining = Some 100, limit = Some 100\<rparr>
   \<and> rateLimit (handleSearch rate_env ''A'' initial_app) = \<lparr>remaining = Some 42, limit = Some 100\<rparr>
   \<and> rateLimit (handleBatchSearch rate_env [''A''] initial_app)
       = \<lparr>remaining = Some 100, limit = Some 100\<rparr>"
proof -
  have f: "fetch rate_env 0 (api_url ''A'') =
     Response \<lparr>ok = True, headers = rate_headers,
               json = Inr (Body \<lparr>data_r = Some \<lparr>unifiedEntities = Some [example_entity ''A'']\<rparr>,
                                error_r = None\<rparr>)\<rparr>"
    by (simp add: rate_env_def example_env_def api_url_def)
  have h: "rate_headers ''X-RateLimit-Remaining'' = Some ''42''"
    "rate_headers ''X-RateLimit-Limit'' = Some ''100''"
    by (simp_all add: rate_headers_def)
  have i: "rateLimit initial_app = \<lparr>remaining = Some 100, limit = Some 100\<rparr>"
    "requests initial_app = []"
    by (simp_all add: initial_app_def)
  have single: "rateLimit (handleSearch rate_env ''A'' initial_app)
                  = \<lparr>remaining = Some 42, limit = Some 100\<rparr>"
    by (simp add: rateLimit_handleSearch i f rateLimit_read_rate_headers h parseInt_examples)
  have batch: "rateLimit (handleBatchSearch rate_env [''A''] initial_app)
                 = \<lparr>remaining = Some 100, limit = Some 100\<rparr>"
    by (simp add: rateLimit_handleBatchSearch i)
  show ?thesis
    using f h i(1) single batch by blast
qed


lemma handleBatchSearch_no_throw:
  assumes "\<forall>r\<in>set (outcomes E (length (requests s)) (take 4 ids)). \<not> isl r"
  shows "requests (handleBatchSearch E ids s) = requests s @ map api_url (take 4 ids)"
    and "comparisonData (handleBatchSearch E ids s) =
           collected (outcomes E (length (requests s)) (take 4 ids))"
    and "error (handleBatchSearch E ids s) =
           (if collected (outcomes E (length (requests s)) (take 4 ids)) = []
            then Some ''No content found for any of the provided IDs'' else None)"
proof -
  have b: "batch_loop E (take 4 ids) [] (requests s) =
             (collected (outcomes E (length (requests s)) (take 4 ids)),
              requests s @ map api_url (take 4 ids), None)"
    using batch_loop_no_throw [OF assms, of "[]"] by simp
  show "requests (handleBatchSearch E ids s) = requests s @ map api_url (take 4 ids)"
    using outcome_handleBatchSearch [OF b] by simp
  show "comparisonData (handleBatchSearch E ids s) =
           collected (outcomes E (length (requests s)) (take 4 ids))"
    using outcome_handleBatchSearch [OF b] by simp
  show "error (handleBatchSearch E ids s) =
           (if collected (outcomes E (length (requests s)) (take 4 ids)) = []
            then Some ''No content found for any of the provided IDs'' else None)"
    using outcome_handleBatchSearch [OF b] by simp
qed

lemma handleBatchSearch_throw:
  assumes "k < length (take 4 ids)"
    and "outcomes E (length (requests s)) (take 4 ids) ! k = Inl err"
    and "\<forall>j<k. \<not> isl (outcomes E (length (requests s)) (take 4 ids) ! j)"
  shows "requests (handleBatchSearch E ids s) = requests s @ map api_url (take (Suc k) ids)"
    and "comparisonData (handleBatchSearch E ids s) = []"
    and "error (handleBatchSearch E ids s) = Some (message_of err ''Batch search failed'')"
proof -
  have k4: "Suc k \<le> 4" using assms(1) by simp
  have b: "batch_loop E (take 4 ids) [] (requests s) =
             (collected (take k (outcomes E (length (requests s)) (take 4 ids))),
              requests s @ map api_url (take (Suc k) ids), Some err)"
    using batch_loop_throw [OF assms, of "[]"] k4 by (simp add: min_def)
  show "requests (handleBatchSearch E ids s) = requests s @ map api_url (take (Suc k) ids)"
    using outcome_handleBatchSearch [OF b] by simp
  show "comparisonData (handleBatchSearch E ids s) = []"
    using outcome_handleBatchSearch [OF b] by simp
  show "error (handleBatchSearch E ids s) = Some (message_of err ''Batch search failed'')"
    using outcome_handleBatchSearch [OF b] by simp
qed

lemma batch_loop_status:
  "batch_loop (E\<lparr>fetch := \<lambda>n u. with_status b (fetch E n u)\<rparr>) ids ents reqs =
     batch_loop E ids ents reqs"
  by (induction ids arbitrary: ents reqs)
     (auto simp: with_status_def split: fetch_result.splits sum.splits parsed_body.splits list.splits)

lemma handleBatchSearch_status:
  "handleBatchSearch (E\<lparr>fetch := \<lambda>n u. with_status b (fetch E n u)\<rparr>) ids s =
     handleBatchSearch E ids s"
  by (simp add: handleBatchSearch_def handleBatchSearch_try_def batch_loop_status trackSearch_def
        Let_def split: prod.splits option.splits)

lemma outcomes_nth:
  "m < length ids \<Longrightarrow> outcomes E n ids ! m = request_outcome E (n + m) (ids ! m)"
proof (induction ids arbitrary: n m)
  case Nil
  then show ?case by simp
next
  case (Cons i ids)
  then show ?case by (cases m) simp_all
qed

lemma set_collected: "set (collected outs) = {entity. Inr (Some entity) \<in> set outs}"
  by (induction outs rule: collected.induct) auto

text \<open>
  Claim C3, amended. A request of a batch throws when \<^verbatim>\<open>fetch\<close> rejects, when the body
  is not JSON, and when the body is the JSON value \<^verbatim>\<open>null\<close> (a \<^verbatim>\<open>TypeError\<close> at
  \<^verbatim>\<open>result.data\<close>); any other body gives its first entity or none. When no request for
  the first four identifiers throws, each of them is requested, an identifier whose body
  carries no first entity is passed over, the entities of the others are collected in
  order, and the batch fails, with the one message that nothing was found, exactly when
  no entity was collected. When a request throws, the batch stops at the first such
  request: the later identifiers are not requested, nothing is shown, and the error is
  the message of what was thrown. The HTTP status of the responses has no part in any
  of this.
\<close>

theorem C3_batch_failures:
  "((\<forall>r\<in>set (outcomes E (length (requests s)) (take 4 ids)). \<not> isl r) \<longrightarrow>
      requests (handleBatchSearch E ids s) = requests s @ map api_url (take 4 ids)
      \<and> comparisonData (handleBatchSearch E ids s) =
          collected (outcomes E (length (requests s)) (take 4 ids))
      \<and> (error (handleBatchSearch E ids s) = Some ''No content found for any of the provided IDs''
           \<longleftrightarrow> collected (outcomes E (length (requests s)) (take 4 ids)) = [])
      \<and> (error (handleBatchSearch E ids s) = None
           \<longleftrightarrow> collected (outcomes E (length (requests s)) (take 4 ids)) \<noteq> []))
   \<and> (k < length (take 4 ids)
       \<and> outcomes E (length (requests s)) (take 4 ids) ! k = Inl err
       \<and> (\<forall>j<k. \<not> isl (outcomes E (length (requests s)) (take 4 ids) ! j)) \<longrightarrow>
      requests (handleBatchSearch E ids s) = requests s @ map api_url (take (Suc k) ids)
      \<and> comparisonData (handleBatchSearch E ids s) = []
      \<and> error (handleBatchSearch E ids s) = Some (message_of err ''Batch search failed''))
   \<and> handleBatchSearch (E\<lparr>fetch := \<lambda>n u. with_status b (fetch E n u)\<rparr>) ids s =
       handleBatchSearch E ids s
   \<and> (m < length (take 4 ids) \<longrightarrow>
        outcomes E (length (requests s)) (take 4 ids) ! m =
          request_outcome E (length (requests s) + m) (ids ! m))
   \<and> (fetch E n (api_url i) = Rejected e' \<longrightarrow> request_outcome E n i = Inl e')
   \<and> (fetch E n (api_url i) = Response resp \<and> json resp = Inl e' \<longrightarrow>
        request_outcome E n i = Inl e')
   \<and> (fetch E n (api_url i) = Response resp \<and> json resp = Inr Null_body \<longrightarrow>
        request_outcome E n i = Inl (Error (TypeError_message E ''data'')))
   \<and> (fetch E n (api_url i) = Response resp \<and> json resp = Inr (Body result) \<longrightarrow>
        request_outcome E n i =
          Inr (case entities_of result of [] \<Rightarrow> None | entity # _ \<Rightarrow> Some entity))
   \<and> set (collected outs) = {entity. Inr (Some entity) \<in> set outs}"
proof (intro conjI impI)
  assume a: "\<forall>r\<in>set (outcomes E (length (requests s)) (take 4 ids)). \<not> isl r"
  show "requests (handleBatchSearch E ids s) = requests s @ map api_url (take 4 ids)"
    by (rule handleBatchSearch_no_throw(1) [OF a])
  show "comparisonData (handleBatchSearch E ids s) =
          collected (outcomes E (length (requests s)) (take 4 ids))"
    by (rule handleBatchSearch_no_throw(2) [OF a])
  show "error (handleBatchSearch E ids s) = Some ''No content found for any of the provided IDs''
           \<longleftrightarrow> collected (outcomes E (length (requests s)) (take 4 ids)) = []"
    by (simp add: handleBatchSearch_no_throw(3) [OF a])
  show "error (handleBatchSearch E ids s) = None
           \<longleftrightarrow> collected (outcomes E (length (requests s)) (take 4 ids)) \<noteq> []"
    by (simp add: handleBatchSearch_no_throw(3) [OF a])
next
  assume a: "k < length (take 4 ids)
       \<and> outcomes E (length (requests s)) (take 4 ids) ! k = Inl err
       \<and> (\<forall>j<k. \<not> isl (outcomes E (length (requests s)) (take 4 ids) ! j))"
  then have 1: "k < length (take 4 ids)"
    and 2: "outcomes E (length (requests s)) (take 4 ids) ! k = Inl err"
    and 3: "\<forall>j<k. \<not> isl (outcomes E (length (requests s)) (take 4 ids) ! j)"
    by blast+
  show "requests (handleBatchSearch E ids s) = requests s @ map api_url (take (Suc k) ids)"
    by (rule handleBatchSearch_throw(1) [OF 1 2 3])
  show "comparisonData (handleBatchSearch E ids s) = []"
    by (rule handleBatchSearch_throw(2) [OF 1 2 3])
  show "error (handleBatchSearch E ids s) = Some (message_of err ''Batch search failed'')"
    by (rule handleBatchSearch_throw(3) [OF 1 2 3])
next
  show "handleBatchSearch (E\<lparr>fetch := \<lambda>n u. with_status b (fetch E n u)\<rparr>) ids s =
          handleBatchSearch E ids s"
    by (rule handleBatchSearch_status)
next
  assume "m < length (take 4 ids)"
  then show "outcomes E (length (requests s)) (take 4 ids) ! m =
               request_outcome E (length (requests s) + m) (ids ! m)"
    by (simp add: outcomes_nth)
next
  assume "fetch E n (api_url i) = Rejected e'"
  then show "request_outcome E n i = Inl e'"
    by (simp add: request_outcome_def)
next
  assume "fetch E n (api_url i) = Response resp \<and> json resp = Inl e'"
  then show "request_outcome E n i = Inl e'"
    by (simp add: request_outcome_def)
next
  assume "fetch E n (api_url i) = Response resp \<and> json resp = Inr Null_body"
  then show "request_outcome E n i = Inl (Error (TypeError_message E ''data''))"
    by (simp add: request_outcome_def)
next
  assume "fetch E n (api_url i) = Response resp \<and> json resp = Inr (Body result)"
  then show "request_outcome E n i =
               Inr (case entities_of result of [] \<Rightarrow> None | entity # _ \<Rightarrow> Some entity)"
    by (simp add: request_outcome_def)
next
  show "set (collected outs) = {entity. Inr (Some entity) \<in> set outs}"
    by (rule set_collected)
qed

lemma outcomes_examples:
  "outcomes empty_env 0 [''A'', ''B'', ''C''] = [Inr None, Inr None, Inr None]"
  "outcomes flaky_env 0 [''A'', ''B''] =
     [Inl (Error ''Unexpected token < in JSON at position 0''), Inr (Some (example_entity ''B''))]"
  "outcomes example_env 0 [''A'', ''B'', ''C'', ''D''] =
     [Inr (Some (example_entity ''A'')), Inr (Some (example_entity ''B'')),
      Inr (Some (example_entity ''C'')), Inr (Some (example_entity ''D''))]"
  "outcomes null_env 0 [''A'', ''B''] =
     [Inl (Error (''Cannot read properties of null (reading '' @ [CHR 0x27] @ ''data''
                  @ [CHR 0x27] @ '')'')),
      Inr (Some (example_entity ''B''))]"
  by (simp_all add: request_outcome_def empty_env_def flaky_env_def null_env_def example_env_def
        found_def api_url_def entities_of_def)

text \<open>
  Claim C3 as it is written fails for a body that does not parse: with \<open>A\<close> answered by
  text that is not JSON and \<open>B\<close> known to the endpoint, the batch for \<open>A\<close> and \<open>B\<close>
  requests \<open>A\<close> only, shows nothing and reports the parser's message.
\<close>

theorem C3_unparseable_counterexample:
  "request_outcome flaky_env 0 ''A'' = Inl (Error ''Unexpected token < in JSON at position 0'')
   \<and> request_outcome flaky_env 1 ''B'' = Inr (Some (example_entity ''B''))
   \<and> requests (handleBatchSearch flaky_env [''A'', ''B''] initial_app) = [api_url ''A'']
   \<and> comparisonData (handleBatchSearch flaky_env [''A'', ''B''] initial_app) = []
   \<and> error (handleBatchSearch flaky_env [''A'', ''B''] initial_app)
       = Some ''Unexpected token < in JSON at position 0''
   \<and> error (handleBatchSearch flaky_env [''A'', ''B''] initial_app)
       \<noteq> Some ''No content found for any of the provided IDs''"
proof -
  have r: "requests initial_app = []"
    by (simp add: initial_app_def)
  have o: "request_outcome flaky_env 0 ''A'' = Inl (Error ''Unexpected token < in JSON at position 0'')"
    "request_outcome flaky_env 1 ''B'' = Inr (Some (example_entity ''B''))"
    by (simp_all add: request_outcome_def flaky_env_def example_env_def found_def api_url_def
          entities_of_def)
  have b: "batch_loop flaky_env (take 4 [''A'', ''B'']) [] (requests initial_app) =
             ([], [api_url ''A''], Some (Error ''Unexpected token < in JSON at position 0''))"
    by (simp add: r flaky_env_def example_env_def api_url_def)
  show ?thesis
    using outcome_handleBatchSearch [OF b] o by (simp add: message_of_def)
qed

theorem C3_batch_failures_witness:
  "outcomes empty_env (length (requests initial_app)) (take 4 [''A'', ''B'', ''C''])
     = [Inr None, Inr None, Inr None]
   \<and> collected (outcomes empty_env (length (requests initial_app)) (take 4 [''A'', ''B'', ''C''])) = []
   \<and> requests (handleBatchSearch empty_env [''A'', ''B'', ''C''] initial_app)
       = [api_url ''A'', api_url ''B'', api_url ''C'']
   \<and> error (handleBatchSearch empty_env [''A'', ''B'', ''C''] initial_app)
       = Some ''No content found for any of the provided IDs''
   \<and> (0::nat) < length (take 4 [''A'', ''B''])
   \<and> outcomes flaky_env (length (requests initial_app)) (take 4 [''A'', ''B'']) ! 0
       = Inl (Error ''Unexpected token < in JSON at position 0'')
   \<and> requests (handleBatchSearch flaky_env [''A'', ''B''] initial_app) = [api_url ''A'']
   \<and> fetch null_env 0 (api_url ''A'')
       = Response \<lparr>ok = True, headers = (\<lambda>name. None), json = Inr Null_body\<rparr>
   \<and> requests (handleBatchSearch null_env [''A'', ''B''] initial_app) = [api_url ''A'']
   \<and> comparisonData (handleBatchSearch null_env [''A'', ''B''] initial_app) = []
   \<and> error (handleBatchSearch null_env [''A'', ''B''] initial_app)
       = Some (''Cannot read properties of null (reading '' @ [CHR 0x27] @ ''data''
               @ [CHR 0x27] @ '')'')"
proof -
  have r: "length (requests initial_app) = 0" "requests initial_app = []"
    by (simp_all add: initial_app_def)
  have t: "take 4 [''A'', ''B'', ''C''] = [''A'', ''B'', ''C'']"
    by simp
  have h: "\<forall>r\<in>set (outcomes empty_env (length (requests initial_app))
                      (take 4 [''A'', ''B'', ''C''])). \<not> isl r"
    by (simp only: r(1) t outcomes_examples) simp
  have o: "outcomes empty_env (length (requests initial_app)) (take 4 [''A'', ''B'', ''C''])
             = [Inr None, Inr None, Inr None]"
    by (simp only: r(1) t outcomes_examples)
  have c: "collected (outcomes empty_env (length (requests initial_app))
                      (take 4 [''A'', ''B'', ''C''])) = []"
    by (simp only: r(1) t outcomes_examples) simp
  note T = C3_batch_failures [of empty_env initial_app "[''A'', ''B'', ''C'']" 0 Thrown True,
      THEN conjunct1, THEN mp, OF h]
  have 1: "requests (handleBatchSearch empty_env [''A'', ''B'', ''C''] initial_app)
       = [api_url ''A'', api_url ''B'', api_url ''C'']"
    using T [THEN conjunct1] by (simp add: r)
  have 2: "error (handleBatchSearch empty_env [''A'', ''B'', ''C''] initial_app)
       = Some ''No content found for any of the provided IDs''"
    using T c by blast
  have t2: "take 4 [''A'', ''B''] = [''A'', ''B'']"
    by simp
  have k: "(0::nat) < length (take 4 [''A'', ''B''])"
    by simp
  have e: "outcomes flaky_env (length (requests initial_app)) (take 4 [''A'', ''B'']) ! 0
             = Inl (Error ''Unexpected token < in JSON at position 0'')"
    by (simp only: r(1) t2 outcomes_examples) simp
  have j: "\<forall>j<0::nat. \<not> isl (outcomes flaky_env (length (requests initial_app))
                                 (take 4 [''A'', ''B'']) ! j)"
    by simp
  have 3: "requests (handleBatchSearch flaky_env [''A'', ''B''] initial_app) = [api_url ''A'']"
    using C3_batch_failures [of flaky_env initial_app "[''A'', ''B'']" 0
        "Error ''Unexpected token < in JSON at position 0''" True, THEN conjunct2,
        THEN conjunct1, THEN mp, OF conjI [OF k conjI [OF e j]], THEN conjunct1]
    by (simp add: r)
  have f: "fetch null_env 0 (api_url ''A'')
             = Response \<lparr>ok = True, headers = (\<lambda>name. None), json = Inr Null_body\<rparr>"
    by (simp add: null_env_def)
  have e0: "outcomes null_env (length (requests initial_app)) (take 4 [''A'', ''B'']) ! 0
             = Inl (Error (''Cannot read properties of null (reading '' @ [CHR 0x27] @ ''data''
                            @ [CHR 0x27] @ '')''))"
    by (simp only: r(1) t2 outcomes_examples) simp
  have j0: "\<forall>j<0::nat. \<not> isl (outcomes null_env (length (requests initial_app))
                                  (take 4 [''A'', ''B'']) ! j)"
    by simp
  note N = C3_batch_failures [of null_env initial_app "[''A'', ''B'']" 0
        "Error (''Cannot read properties of null (reading '' @ [CHR 0x27] @ ''data''
                @ [CHR 0x27] @ '')'')" True, THEN conjunct2,
        THEN conjunct1, THEN mp, OF conjI [OF k conjI [OF e0 j0]]]
  have 4: "requests (handleBatchSearch null_env [''A'', ''B''] initial_app) = [api_url ''A'']"
    using N [THEN conjunct1] by (simp add: r)
  have 5: "comparisonData (handleBatchSearch null_env [''A'', ''B''] initial_app) = []"
    using N by blast
  have 6: "error (handleBatchSearch null_env [''A'', ''B''] initial_app)
       = Some (''Cannot read properties of null (reading '' @ [CHR 0x27] @ ''data''
               @ [CHR 0x27] @ '')'')"
    using N [THEN conjunct2, THEN conjunct2] by (simp add: message_of_def)
  show ?thesis
    using o c 1 2 k e 3 f 4 5 6 by blast
qed


text \<open>
  Claim C6. The requests of a batch search are those for the first \<open>k\<close> identifiers, in
  the order of the input, for some \<open>k\<close> of at most 4; when no request throws, they are
  the requests for the first four identifiers (all of them when there are fewer).
\<close>

theorem C6_batch_limit:
  "(\<exists>k\<le>4. requests (handleBatchSearch E ids s) = requests s @ map api_url (take k ids))
   \<and> ((\<forall>r\<in>set (outcomes E (length (requests s)) (take 4 ids)). \<not> isl r) \<longrightarrow>
        requests (handleBatchSearch E ids s) = requests s @ map api_url (take 4 ids))"
proof
  obtain k where k: "k \<le> length (take 4 ids)"
    "fst (snd (batch_loop E (take 4 ids) [] (requests s))) =
       requests s @ map api_url (take k (take 4 ids))"
    using batch_loop_requests [of "take 4 ids" E "[]" "requests s"] by blast
  from k(1) have k4: "k \<le> 4" by simp
  then have "take k (take 4 ids) = take k ids" by (simp add: min_def)
  with k(2) have "requests (handleBatchSearch E ids s) = requests s @ map api_url (take k ids)"
    by (simp add: requests_handleBatchSearch)
  with k4 show "\<exists>k\<le>4. requests (handleBatchSearch E ids s) =
                  requests s @ map api_url (take k ids)"
    by blast
next
  show "(\<forall>r\<in>set (outcomes E (length (requests s)) (take 4 ids)). \<not> isl r) \<longrightarrow>
        requests (handleBatchSearch E ids s) = requests s @ map api_url (take 4 ids)"
    using handleBatchSearch_no_throw(1) by blast
qed

theorem C6_batch_limit_witness:
  "outcomes example_env (length (requests initial_app))
     (take 4 [''A'', ''B'', ''C'', ''D'', ''E'']) =
     [Inr (Some (example_entity ''A'')), Inr (Some (example_entity ''B'')),
      Inr (Some (example_entity ''C'')), Inr (Some (example_entity ''D''))]
   \<and> requests (handleBatchSearch example_env [''A'', ''B'', ''C'', ''D'', ''E''] initial_app)
       = [api_url ''A'', api_url ''B'', api_url ''C'', api_url ''D'']"
proof -
  have r: "length (requests initial_app) = 0" "requests initial_app = []"
    by (simp_all add: initial_app_def)
  have t: "take 4 [''A'', ''B'', ''C'', ''D'', ''E''] = [''A'', ''B'', ''C'', ''D'']"
    by simp
  have h: "\<forall>r\<in>set (outcomes example_env (length (requests initial_app))
                      (take 4 [''A'', ''B'', ''C'', ''D'', ''E''])). \<not> isl r"
    by (simp only: r(1) t outcomes_examples) simp
  have "requests (handleBatchSearch example_env [''A'', ''B'', ''C'', ''D'', ''E''] initial_app)
          = [api_url ''A'', api_url ''B'', api_url ''C'', api_url ''D'']"
    using C6_batch_limit [of example_env "[''A'', ''B'', ''C'', ''D'', ''E'']" initial_app,
        THEN conjunct2, THEN mp, OF h]
    by (simp add: r)
  moreover have "outcomes example_env (length (requests initial_app))
     (take 4 [''A'', ''B'', ''C'', ''D'', ''E'']) =
     [Inr (Some (example_entity ''A'')), Inr (Some (example_entity ''B'')),
      Inr (Some (example_entity ''C'')), Inr (Some (example_entity ''D''))]"
    by (simp only: r(1) t outcomes_examples)
  ultimately show ?thesis by blast
qed

lemma error_handleBatchSearch_iff:
  "error (handleBatchSearch E ids s) = None \<longleftrightarrow>
     (\<forall>r\<in>set (outcomes E (length (requests s)) (take 4 ids)). \<not> isl r)
     \<and> collected (outcomes E (length (requests s)) (take 4 ids)) \<noteq> []"
proof (cases "\<forall>r\<in>set (outcomes E (length (requests s)) (take 4 ids)). \<not> isl r")
  case True
  then show ?thesis
    by (simp add: handleBatchSearch_no_throw(3))
next
  case False
  then have "snd (snd (batch_loop E (take 4 ids) [] (requests s))) \<noteq> None"
    by (simp add: batch_loop_error_iff)
  then obtain ents reqs e where "batch_loop E (take 4 ids) [] (requests s) = (ents, reqs, Some e)"
    by (cases "batch_loop E (take 4 ids) [] (requests s)") auto
  from outcome_handleBatchSearch [OF this] False show ?thesis
    by simp
qed

lemma Math_round_of_int: "Math_round (rat_of_int k) = k"
  by (simp add: Math_round_def floor_eq_iff)

text \<open>
  Claim C10. A batch search succeeds exactly when no request throws and some entity was
  collected. It then updates the analytics once: the total grows by one, and the entry
  put in front of the recent searches has the whole input list joined by commas as its
  identifier and the one rounded time of the batch, which is also the sample appended to
  the window. A batch search that fails leaves the analytics as they were.
\<close>

theorem C10_batch_analytics:
  "(error (handleBatchSearch E ids s) = None \<longrightarrow>
      analytics (handleBatchSearch E ids s) =
        trackSearch_updated (join '','' ids) (Math_round (now_end E - now_start E)) (analytics s)
      \<and> totalSearches (analytics (handleBatchSearch E ids s)) = totalSearches (analytics s) + 1
      \<and> recentSearches (analytics (handleBatchSearch E ids s)) =
          take 10 (\<lparr>id_r = join '','' ids, time_r = Math_round (now_end E - now_start E)\<rparr>
                   # recentSearches (analytics s))
      \<and> searchTimes (analytics (handleBatchSearch E ids s)) =
          slice_last 50 (searchTimes (analytics s) @ [Math_round (now_end E - now_start E)]))
   \<and> (error (handleBatchSearch E ids s) = None \<longleftrightarrow>
        (\<forall>r\<in>set (outcomes E (length (requests s)) (take 4 ids)). \<not> isl r)
        \<and> collected (outcomes E (length (requests s)) (take 4 ids)) \<noteq> [])
   \<and> (error (handleBatchSearch E ids s) \<noteq> None \<longrightarrow>
        analytics (handleBatchSearch E ids s) = analytics s)"
proof -
  have "error (handleBatchSearch E ids s) = None \<longrightarrow>
      analytics (handleBatchSearch E ids s) =
        trackSearch_updated (join '','' ids) (Math_round (now_end E - now_start E)) (analytics s)
      \<and> totalSearches (analytics (handleBatchSearch E ids s)) = totalSearches (analytics s) + 1
      \<and> recentSearches (analytics (handleBatchSearch E ids s)) =
          take 10 (\<lparr>id_r = join '','' ids, time_r = Math_round (now_end E - now_start E)\<rparr>
                   # recentSearches (analytics s))
      \<and> searchTimes (analytics (handleBatchSearch E ids s)) =
          slice_last 50 (searchTimes (analytics s) @ [Math_round (now_end E - now_start E)])"
    by (simp add: analytics_handleBatchSearch [of E ids s] trackSearch_updated_def Let_def)
  moreover have "error (handleBatchSearch E ids s) \<noteq> None \<longrightarrow>
        analytics (handleBatchSearch E ids s) = analytics s"
    by (simp add: analytics_handleBatchSearch [of E ids s])
  ultimately show ?thesis
    using error_handleBatchSearch_iff [of E ids s] by blast
qed

theorem C10_batch_analytics_witness:
  "error (handleBatchSearch example_env [''A'', ''B'', ''C'', ''D'', ''E''] initial_app) = None
   \<and> totalSearches (analytics initial_app) = 0
   \<and> totalSearches
        (analytics (handleBatchSearch example_env [''A'', ''B'', ''C'', ''D'', ''E''] initial_app)) = 1
   \<and> recentSearches
        (analytics (handleBatchSearch example_env [''A'', ''B'', ''C'', ''D'', ''E''] initial_app))
       = [\<lparr>id_r = ''A,B,C,D,E'', time_r = 240\<rparr>]
   \<and> requests (handleBatchSearch example_env [''A'', ''B'', ''C'', ''D'', ''E''] initial_app)
       = [api_url ''A'', api_url ''B'', api_url ''C'', api_url ''D'']"
proof -
  have r: "length (requests initial_app) = 0" "requests initial_app = []"
    by (simp_all add: initial_app_def)
  have a: "totalSearches (analytics initial_app) = 0" "recentSearches (analytics initial_app) = []"
    by (simp_all add: initial_app_def initial_analytics_def)
  have t: "take 4 [''A'', ''B'', ''C'', ''D'', ''E''] = [''A'', ''B'', ''C'', ''D'']"
    by simp
  have h: "\<forall>r\<in>set (outcomes example_env (length (requests initial_app))
                      (take 4 [''A'', ''B'', ''C'', ''D'', ''E''])). \<not> isl r"
    by (simp only: r(1) t outcomes_examples) simp
  have c: "collected (outcomes example_env (length (requests initial_app))
                      (take 4 [''A'', ''B'', ''C'', ''D'', ''E''])) \<noteq> []"
    by (simp only: r(1) t outcomes_examples) simp
  have rq: "requests (handleBatchSearch example_env [''A'', ''B'', ''C'', ''D'', ''E''] initial_app)
       = [api_url ''A'', api_url ''B'', api_url ''C'', api_url ''D'']"
    using handleBatchSearch_no_throw(1) [OF h] by (simp add: r)
  have j: "join '','' [''A'', ''B'', ''C'', ''D'', ''E''] = ''A,B,C,D,E''"
    by simp
  have "now_end example_env - now_start example_env = rat_of_int 240"
    by (simp add: example_env_def)
  then have m: "Math_round (now_end example_env - now_start example_env) = 240"
    by (simp only: Math_round_of_int)
  note T = C10_batch_analytics [of example_env "[''A'', ''B'', ''C'', ''D'', ''E'']" initial_app]
  have ok: "error (handleBatchSearch example_env [''A'', ''B'', ''C'', ''D'', ''E''] initial_app)
              = None"
    using T h c by blast
  have 1: "totalSearches
        (analytics (handleBatchSearch example_env [''A'', ''B'', ''C'', ''D'', ''E''] initial_app)) = 1"
    using T [THEN conjunct1, THEN mp, OF ok, THEN conjunct2, THEN conjunct1]
    by (simp only: a, simp?)
  have 2: "recentSearches
        (analytics (handleBatchSearch example_env [''A'', ''B'', ''C'', ''D'', ''E''] initial_app))
       = [\<lparr>id_r = ''A,B,C,D,E'', time_r = 240\<rparr>]"
    using T [THEN conjunct1, THEN mp, OF ok, THEN conjunct2, THEN conjunct2, THEN conjunct1]
    by (simp only: a j m, simp?)
  show ?thesis
    using ok a(1) 1 2 rq by blast
qed

end
